theory Spec2Isabelle
  imports Main "HOL-Library.Word"
begin

unbundle bit_operations_syntax

section \<open>Machine types, errors and panics\<close>

text \<open>
  Go's fixed-width unsigned integers are words of the same width; \<open>uint\<close> is the
  64-bit word of the Linux targets the library is built for (the only \<open>uint\<close>
  values in the code are conversions of 16-bit words, so nothing depends on that
  width). Byte slices and byte arrays are lists of bytes; Go strings are HOL strings.

  A Go function that returns \<open>(T, error)\<close> is modelled as returning a pair
  \<open>T \<times> error option\<close> (\<open>None\<close> is \<open>nil\<close>), because callers in this repository
  sometimes drop the error and keep the value. A run-time panic (index out of range)
  is a different thing from an error value: a function that can panic returns an
  \<open>option\<close>, and \<open>None\<close> is the panic.
\<close>

type_synonym byte = "8 word"
type_synonym uint16 = "16 word"
type_synonym uint32 = "32 word"
type_synonym uint64 = "64 word"
type_synonym uint = "64 word"

datatype error =
    Errno nat
  | sgIOErr byte uint16 uint16
  | Errorf string error
  | EOF
  | ErrUnexpectedEOF

text \<open>
  \<open>Errno e\<close> is a \<open>unix.Errno\<close> from open, close or ioctl;
  \<open>sgIOErr scsiStatus hostStatus driverStatus\<close> is the struct of that name (its
  \<open>senseBuf\<close> is never filled in by the code); \<open>Errorf prefix err\<close> is
  \<open>fmt.Errorf(prefix + ": %v", err)\<close>; \<open>EOF\<close> and \<open>ErrUnexpectedEOF\<close> are the
  errors of \<open>binary.Read\<close> on a short buffer.
\<close>

section \<open>Package utilities\<close>

text \<open>
  \<open>bits.Len(x)\<close> of the Go standard library: the minimum number of bits needed to
  represent \<open>x\<close>, and 0 for \<open>x = 0\<close>.
\<close>

fun bits_Len :: "nat \<Rightarrow> nat" where
  "bits_Len x = (if x = 0 then 0 else Suc (bits_Len (x div 2)))"

declare bits_Len.simps [simp del]

text \<open>\<open>MSignificantBit\<close>: 0 for 0, otherwise \<open>bits.Len(x) - 1\<close>, as a Go \<open>int\<close>.\<close>

definition MSignificantBit :: "uint \<Rightarrow> int" where
  "MSignificantBit x = (if x = 0 then 0 else int (bits_Len (unat x)) - 1)"

text \<open>
  The hexadecimal verbs of \<open>fmt.Sprintf\<close> used by the decoder. \<open>hex n\<close> is \<open>%x\<close>
  (lower-case digits, no padding). \<open>Sprintf_0x w n\<close> is \<open>%0wx\<close>: the digits padded
  with zeros to the width. \<open>Sprintf_sharp_0x w n\<close> is \<open>%#0wx\<close>: with the \<open>0\<close> flag and
  a width Go pads the digits with zeros to the width and then puts the \<open>0x\<close> of the
  \<open>#\<close> flag in front.
\<close>

definition hexdigit :: "nat \<Rightarrow> char" where
  "hexdigit n = ''0123456789abcdef'' ! n"

fun hex :: "nat \<Rightarrow> string" where
  "hex n = (if n < 16 then [hexdigit n] else hex (n div 16) @ [hexdigit (n mod 16)])"

declare hex.simps [simp del]

definition Sprintf_0x :: "nat \<Rightarrow> nat \<Rightarrow> string" where
  "Sprintf_0x w n = replicate (w - length (hex n)) (CHR ''0'') @ hex n"

definition Sprintf_sharp_0x :: "nat \<Rightarrow> nat \<Rightarrow> string" where
  "Sprintf_sharp_0x w n = ''0x'' @ replicate (w - length (hex n)) (CHR ''0'') @ hex n"

text \<open>
  The conversion \<open>string(b)\<close> of a byte slice, and the two byte orders of
  \<open>encoding/binary\<close>. \<open>utilities.NativeEndian\<close> is fixed once at start-up to the byte
  order of the machine; the functions that use it take it as a parameter.
\<close>

definition string_of_bytes :: "byte list \<Rightarrow> string" where
  "string_of_bytes b = map (\<lambda>x. char_of (unat x)) b"

datatype ByteOrder = LittleEndian | BigEndian

definition ByteOrder_Uint16 :: "ByteOrder \<Rightarrow> byte \<Rightarrow> byte \<Rightarrow> uint16" where
  "ByteOrder_Uint16 order b0 b1 =
     (case order of
        LittleEndian \<Rightarrow> ucast b0 OR push_bit 8 (ucast b1)
      | BigEndian \<Rightarrow> ucast b1 OR push_bit 8 (ucast b0))"

section \<open>ATA IDENTIFY DEVICE data (package atasmart)\<close>

text \<open>
  The named fields of \<open>IdentDevData\<close>. The blank (\<open>_\<close>) fields of the Go struct hold
  no value a method reads; they only fix the offsets, which \<open>binary_Read_IdentDevData\<close>
  below reproduces. A Go array \<open>[n]byte\<close> is a list whose length is \<open>n\<close>; the
  predicate \<open>IdentDevData_sized\<close> states the lengths the struct type fixes.
\<close>

record IdentDevData =
  SerialNumber :: "byte list"
  FirmwareRev :: "byte list"
  ModelNumber :: "byte list"
  MajorVer :: uint16
  MinorVer :: uint16
  Word85 :: uint16
  Word87 :: uint16
  SectorSize :: uint16
  WWN :: "uint16 list"
  RotationRate :: uint16
  TransportMajor :: uint16

definition IdentDevData_sized :: "IdentDevData \<Rightarrow> bool" where
  "IdentDevData_sized d =
     (length (SerialNumber d) = 20 \<and> length (FirmwareRev d) = 8 \<and>
      length (ModelNumber d) = 40 \<and> length (WWN d) = 4)"

text \<open>The zero value of the struct (\<open>var identifyBuf atasmart.IdentDevData\<close>).\<close>

definition IdentDevData_zero :: IdentDevData where
  "IdentDevData_zero =
     \<lparr>SerialNumber = replicate 20 0, FirmwareRev = replicate 8 0,
      ModelNumber = replicate 40 0, MajorVer = 0, MinorVer = 0, Word85 = 0, Word87 = 0,
      SectorSize = 0, WWN = replicate 4 0, RotationRate = 0, TransportMajor = 0\<rparr>"

text \<open>
  \<open>swapByteOrder\<close>: \<open>tmp := make([]byte, len(b))\<close>, then for \<open>i = 0, 2, 4, ...\<close> below
  \<open>len(b)\<close> the assignment \<open>tmp[i], tmp[i+1] = b[i+1], b[i]\<close>. Indexing \<open>i+1\<close> at or
  past the length panics. The receiver is not used by the body and is left out.
\<close>

function swapByteOrder_loop :: "nat \<Rightarrow> byte list \<Rightarrow> byte list \<Rightarrow> byte list option" where
  "swapByteOrder_loop i b tmp =
     (if i < length b then
        (if i + 1 < length b \<and> i + 1 < length tmp
         then swapByteOrder_loop (i + 2) b (tmp[i := b ! (i + 1), i + 1 := b ! i])
         else None)
      else Some tmp)"
  by pat_completeness auto
termination
  by (relation "measure (\<lambda>(i, b, tmp). length b - i)") auto

declare swapByteOrder_loop.simps [simp del]

definition swapByteOrder :: "byte list \<Rightarrow> byte list option" where
  "swapByteOrder b = swapByteOrder_loop 0 b (replicate (length b) 0)"

definition GetSerialNumber :: "IdentDevData \<Rightarrow> byte list option" where
  "GetSerialNumber d = swapByteOrder (SerialNumber d)"

definition GetModelNumber :: "IdentDevData \<Rightarrow> byte list option" where
  "GetModelNumber d = swapByteOrder (ModelNumber d)"

definition GetFirmwareRevision :: "IdentDevData \<Rightarrow> byte list option" where
  "GetFirmwareRevision d = swapByteOrder (FirmwareRev d)"

text \<open>
  \<open>GetSectorSize\<close>: both sizes start at 512 as \<open>uint16\<close>; the physical size is shifted
  left, in 16 bits, by the low nibble when bits 15:14 are 01 and bit 13 is set.
\<close>

definition GetSectorSize :: "IdentDevData \<Rightarrow> uint16 \<times> uint16" where
  "GetSectorSize d =
     (let LogSec = 512; PhySec = 512 in
      if SectorSize d AND 0xc000 = 0x4000 then
        (if SectorSize d AND 0x2000 \<noteq> 0x0000
         then (LogSec, push_bit (unat (SectorSize d AND 0x0f)) PhySec)
         else (LogSec, PhySec))
      else (LogSec, PhySec))"

definition GetATAMajorVersion :: "IdentDevData \<Rightarrow> string" where
  "GetATAMajorVersion d =
     (if MajorVer d = 0 \<or> MajorVer d = 0xffff
      then ''This device does not report ATA major version''
      else
        (let m = MSignificantBit (ucast (MajorVer d)) in
         if m = 1 then ''ATA-1''
         else if m = 2 then ''ATA-2''
         else if m = 3 then ''ATA-3''
         else if m = 4 then ''ATA/ATAPI-4''
         else if m = 5 then ''ATA/ATAPI-5''
         else if m = 6 then ''ATA/ATAPI-6''
         else if m = 7 then ''ATA/ATAPI-7''
         else if m = 8 then ''ATA8-ACS''
         else if m = 9 then ''ACS-2''
         else if m = 10 then ''ACS-3''
         else ''''))"

definition Transport :: "IdentDevData \<Rightarrow> string" where
  "Transport d =
     (if TransportMajor d = 0 \<or> TransportMajor d = 0xffff
      then ''This device does not report transport''
      else
        (let t = drop_bit 12 (TransportMajor d) in
         if t = 0x0 then ''Parallel ATA''
         else if t = 0x1 then
           ''Serial ATA'' @
             (let m = MSignificantBit (ucast (TransportMajor d AND 0x0fff)) in
              if m = 0 then '' ATA8-AST''
              else if m = 1 then '' SATA 1.0a''
              else if m = 2 then '' SATA II Ext''
              else if m = 3 then '' SATA 2.5''
              else if m = 4 then '' SATA 2.6''
              else if m = 5 then '' SATA 3.0''
              else if m = 6 then '' SATA 3.1''
              else if m = 7 then '' SATA 3.2''
              else '' SATA ('' @ Sprintf_sharp_0x 3 (unat (TransportMajor d AND 0x0fff)) @ '')'')
         else if t = 0xe then
           ''PCIe ('' @ Sprintf_sharp_0x 3 (unat (TransportMajor d AND 0x0fff)) @ '')''
         else ''Unknown ('' @ Sprintf_sharp_0x 4 (unat (TransportMajor d)) @ '')''))"

text \<open>
  \<open>binary.Read(bytes.NewBuffer(buf), order, &identifyBuf)\<close> for this struct: it needs
  512 bytes and otherwise fails and leaves the struct as it was. The byte offsets are
  those of the Go struct with its blank fields: the serial number at byte 20, the
  firmware revision at 46, the model number at 54, and word \<open>n\<close> at byte \<open>2 * n\<close>.
\<close>

definition binary_Read_IdentDevData ::
  "ByteOrder \<Rightarrow> byte list \<Rightarrow> IdentDevData \<Rightarrow> error option \<times> IdentDevData" where
  "binary_Read_IdentDevData order buf identifyBuf =
     (if length buf < 512
      then (Some (if buf = [] then EOF else ErrUnexpectedEOF), identifyBuf)
      else (None,
        \<lparr>SerialNumber = take 20 (drop 20 buf),
         FirmwareRev = take 8 (drop 46 buf),
         ModelNumber = take 40 (drop 54 buf),
         MajorVer = ByteOrder_Uint16 order (buf ! 160) (buf ! 161),
         MinorVer = ByteOrder_Uint16 order (buf ! 162) (buf ! 163),
         Word85 = ByteOrder_Uint16 order (buf ! 170) (buf ! 171),
         Word87 = ByteOrder_Uint16 order (buf ! 174) (buf ! 175),
         SectorSize = ByteOrder_Uint16 order (buf ! 212) (buf ! 213),
         WWN = [ByteOrder_Uint16 order (buf ! 216) (buf ! 217),
                ByteOrder_Uint16 order (buf ! 218) (buf ! 219),
                ByteOrder_Uint16 order (buf ! 220) (buf ! 221),
                ByteOrder_Uint16 order (buf ! 222) (buf ! 223)],
         RotationRate = ByteOrder_Uint16 order (buf ! 434) (buf ! 435),
         TransportMajor = ByteOrder_Uint16 order (buf ! 444) (buf ! 445)\<rparr>))"

text \<open>
  \<open>GetWWN\<close> indexes the four-word array with constants, which Go checks when it
  compiles; the result is \<open>fmt.Sprintf("%x %06x %09x", NAA, IEEEOUI, UniqueID)\<close>.
\<close>

definition GetWWN :: "IdentDevData \<Rightarrow> string" where
  "GetWWN d =
     (let NAA = drop_bit 12 (WWN d ! 0);
          IEEEOUI = push_bit 12 (ucast (WWN d ! 0 AND 0x0fff) :: uint32) OR
                    drop_bit 4 (ucast (WWN d ! 1) :: uint32);
          UniqueID = push_bit 32 ((ucast (WWN d ! 1) :: uint64) AND 0xf) OR
                     push_bit 16 (ucast (WWN d ! 2) :: uint64) OR
                     (ucast (WWN d ! 3) :: uint64)
      in hex (unat NAA) @ '' '' @ Sprintf_0x 6 (unat IEEEOUI) @ '' '' @
         Sprintf_0x 9 (unat UniqueID))"

definition ataMinorVersions :: "(uint16 \<times> string) list" where
  "ataMinorVersions =
     [(0x0001, ''ATA-1 X3T9.2/781D prior to revision 4''),
      (0x0002, ''ATA-1 published, ANSI X3.221-1994''),
      (0x0003, ''ATA-1 X3T9.2/781D revision 4''),
      (0x0004, ''ATA-2 published, ANSI X3.279-1996''),
      (0x0005, ''ATA-2 X3T10/948D prior to revision 2k''),
      (0x0006, ''ATA-3 X3T10/2008D revision 1''),
      (0x0007, ''ATA-2 X3T10/948D revision 2k''),
      (0x0008, ''ATA-3 X3T10/2008D revision 0''),
      (0x0009, ''ATA-2 X3T10/948D revision 3''),
      (0x000a, ''ATA-3 published, ANSI X3.298-1997''),
      (0x000b, ''ATA-3 X3T10/2008D revision 6''),
      (0x000c, ''ATA-3 X3T13/2008D revision 7 and 7a''),
      (0x000d, ''ATA/ATAPI-4 X3T13/1153D revision 6''),
      (0x000e, ''ATA/ATAPI-4 T13/1153D revision 13''),
      (0x000f, ''ATA/ATAPI-4 X3T13/1153D revision 7''),
      (0x0010, ''ATA/ATAPI-4 T13/1153D revision 18''),
      (0x0011, ''ATA/ATAPI-4 T13/1153D revision 15''),
      (0x0012, ''ATA/ATAPI-4 published, ANSI NCITS 317-1998''),
      (0x0013, ''ATA/ATAPI-5 T13/1321D revision 3''),
      (0x0014, ''ATA/ATAPI-4 T13/1153D revision 14''),
      (0x0015, ''ATA/ATAPI-5 T13/1321D revision 1''),
      (0x0016, ''ATA/ATAPI-5 published, ANSI NCITS 340-2000''),
      (0x0017, ''ATA/ATAPI-4 T13/1153D revision 17''),
      (0x0018, ''ATA/ATAPI-6 T13/1410D revision 0''),
      (0x0019, ''ATA/ATAPI-6 T13/1410D revision 3a''),
      (0x001a, ''ATA/ATAPI-7 T13/1532D revision 1''),
      (0x001b, ''ATA/ATAPI-6 T13/1410D revision 2''),
      (0x001c, ''ATA/ATAPI-6 T13/1410D revision 1''),
      (0x001d, ''ATA/ATAPI-7 published, ANSI INCITS 397-2005''),
      (0x001e, ''ATA/ATAPI-7 T13/1532D revision 0''),
      (0x001f, ''ACS-3 T13/2161-D revision 3b''),
      (0x0021, ''ATA/ATAPI-7 T13/1532D revision 4a''),
      (0x0022, ''ATA/ATAPI-6 published, ANSI INCITS 361-2002''),
      (0x0027, ''ATA8-ACS T13/1699-D revision 3c''),
      (0x0028, ''ATA8-ACS T13/1699-D revision 6''),
      (0x0029, ''ATA8-ACS T13/1699-D revision 4''),
      (0x0031, ''ACS-2 T13/2015-D revision 2''),
      (0x0033, ''ATA8-ACS T13/1699-D revision 3e''),
      (0x0039, ''ATA8-ACS T13/1699-D revision 4c''),
      (0x0042, ''ATA8-ACS T13/1699-D revision 3f''),
      (0x0052, ''ATA8-ACS T13/1699-D revision 3b''),
      (0x005e, ''ACS-4 T13/BSR INCITS 529 revision 5''),
      (0x006d, ''ACS-3 T13/2161-D revision 5''),
      (0x0082, ''ACS-2 published, ANSI INCITS 482-2012''),
      (0x0107, ''ATA8-ACS T13/1699-D revision 2d''),
      (0x010a, ''ACS-3 published, ANSI INCITS 522-2014''),
      (0x0110, ''ACS-2 T13/2015-D revision 3''),
      (0x011b, ''ACS-3 T13/2161-D revision 4'')]"

definition GetATAMinorVersion :: "IdentDevData \<Rightarrow> string" where
  "GetATAMinorVersion d =
     (if MinorVer d = 0 \<or> MinorVer d = 0xffff
      then ''This device does not report ATA minor version''
      else case map_of ataMinorVersions (MinorVer d) of
             Some s \<Rightarrow> s
           | None \<Rightarrow> ''unknown'')"

section \<open>SCSI command definitions (package scsismart)\<close>

definition SCSIInquiry :: byte where "SCSIInquiry = 0x12"
definition SCSIModeSense6 :: byte where "SCSIModeSense6 = 0x1a"
definition SCSIReadCapacity10 :: byte where "SCSIReadCapacity10 = 0x25"
definition SCSIATAPassThru16 :: byte where "SCSIATAPassThru16 = 0x85"
definition INQRespLen :: nat where "INQRespLen = 36"
definition RigidDiskDriveGeometryPage :: byte where "RigidDiskDriveGeometryPage = 0x04"
definition ModePageControlDefault :: byte where "ModePageControlDefault = 2"

definition SGDxferFromDev :: int where "SGDxferFromDev = -3"
definition SGInfoOkMask :: uint32 where "SGInfoOkMask = 0x1"
definition SGInfoOk :: uint32 where "SGInfoOk = 0x0"
definition SGIO :: nat where "SGIO = 0x2285"
definition DefaultTimeout :: uint32 where "DefaultTimeout = 20000"

text \<open>
  \<open>InquiryResponse\<close>: the named fields of the 36-byte struct (the blank fields at
  bytes 1 and 3..7 are skipped by the decoder below).
\<close>

record InquiryResponse =
  Peripheral :: byte
  Version :: byte
  VendorID :: "byte list"
  ProductID :: "byte list"
  ProductRev :: "byte list"

definition InquiryResponse_zero :: InquiryResponse where
  "InquiryResponse_zero =
     \<lparr>Peripheral = 0, Version = 0, VendorID = replicate 8 0, ProductID = replicate 16 0,
      ProductRev = replicate 4 0\<rparr>"

text \<open>
  \<open>binary.Read(bytes.NewBuffer(buf), order, &response)\<close> of the Go standard library,
  for this struct: it needs 36 bytes; with fewer it returns \<open>io.EOF\<close> (none at all) or
  \<open>io.ErrUnexpectedEOF\<close> and leaves the struct as it was. All fields are bytes, so the
  byte order plays no role.
\<close>

definition binary_Read_InquiryResponse ::
  "byte list \<Rightarrow> InquiryResponse \<Rightarrow> error option \<times> InquiryResponse" where
  "binary_Read_InquiryResponse buf response =
     (if length buf < 36 then (Some (if buf = [] then EOF else ErrUnexpectedEOF), response)
      else (None,
        \<lparr>Peripheral = buf ! 0, Version = buf ! 2, VendorID = take 8 (drop 8 buf),
         ProductID = take 16 (drop 16 buf), ProductRev = take 4 (drop 32 buf)\<rparr>))"

text \<open>
  \<open>binary.BigEndian.Uint32(b)\<close> and \<open>binary.BigEndian.PutUint16(b[off:], v)\<close> of the
  Go standard library; both panic when the slice is too short.
\<close>

definition BigEndian_Uint32 :: "byte list \<Rightarrow> uint32 option" where
  "BigEndian_Uint32 b =
     (if length b < 4 then None
      else Some (ucast (b ! 3) OR push_bit 8 (ucast (b ! 2)) OR push_bit 16 (ucast (b ! 1))
                 OR push_bit 24 (ucast (b ! 0))))"

definition BigEndian_PutUint16 :: "byte list \<Rightarrow> nat \<Rightarrow> uint16 \<Rightarrow> byte list option" where
  "BigEndian_PutUint16 b off v =
     (if off + 1 < length b then Some (b[off := ucast (drop_bit 8 v), off + 1 := ucast v])
      else None)"

text \<open>
  \<open>sgIOHeader\<close>: the fields of \<open>sg_io_hdr_t\<close> that \<open>sendCDB\<close> sets or
  \<open>execSCSIGeneric\<close> reads, in the struct's order. The three pointers are modelled by
  the memory they point to. The remaining fields of the Go struct stay zero and are
  never read by the code.
\<close>

record sgIOHeader =
  interfaceID :: "32 word"
  dxferDirection :: int
  cmdLen :: byte
  mxSBLen :: byte
  dxferLen :: uint32
  dxferp :: "byte list"
  cmdp :: "byte list"
  sbp :: "byte list"
  timeout :: uint32
  status :: byte
  hostStatus :: uint16
  driverStatus :: uint16
  info :: uint32

record SCSIDevice =
  Name :: string
  fd :: int

text \<open>
  The \<open>Dev\<close> interface has two implementations: \<open>*SCSIDevice\<close> and \<open>*SATA\<close>, the
  latter a struct that embeds a \<open>SCSIDevice\<close>.
\<close>

datatype Dev = Dev_SCSIDevice SCSIDevice | Dev_SATA SCSIDevice

section \<open>The operating system and the device\<close>

text \<open>
  What a device answers to one SG_IO request: either the system call itself fails
  with an errno, or it returns the driver's \<open>info\<close> word, the three status fields and
  the bytes the device transfers. A device is any function from the command block to
  such an answer, so a theorem about every device covers every reply.
\<close>

record sg_reply =
  reply_errno :: "nat option"
  reply_info :: uint32
  reply_status :: byte
  reply_hostStatus :: uint16
  reply_driverStatus :: uint16
  reply_data :: "byte list"

type_synonym device = "byte list \<Rightarrow> sg_reply"

text \<open>
  The kernel state the code can see: which paths can be opened (\<open>Inl errno\<close> when
  \<open>open\<close> fails), and the table of open file descriptors.
\<close>

record kernel =
  nodes :: "string \<Rightarrow> nat + device"
  fdtable :: "(int \<times> device) list"

definition EBADF :: nat where "EBADF = 9"
definition ENOTTY :: nat where "ENOTTY = 25"

definition lowest_free_fd :: "int list \<Rightarrow> int" where
  "lowest_free_fd used =
     (case filter (\<lambda>i. i \<notin> set used) (map int [0..<Suc (length used)]) of
        [] \<Rightarrow> int (length used)
      | i # _ \<Rightarrow> i)"

text \<open>
  \<open>unix.Open\<close> and \<open>unix.Close\<close> of \<open>golang.org/x/sys/unix\<close>: \<open>open\<close> returns the lowest
  free descriptor, or \<open>-1\<close> and the errno; \<open>close\<close> removes the descriptor from the
  table, or fails with \<open>EBADF\<close>.
\<close>

definition unix_Open :: "kernel \<Rightarrow> string \<Rightarrow> (int \<times> error option) \<times> kernel" where
  "unix_Open k path =
     (case nodes k path of
        Inl e \<Rightarrow> ((- 1, Some (Errno e)), k)
      | Inr dev \<Rightarrow>
          (let n = lowest_free_fd (map fst (fdtable k))
           in ((n, None), k\<lparr>fdtable := (n, dev) # fdtable k\<rparr>)))"

definition unix_Close :: "kernel \<Rightarrow> int \<Rightarrow> error option \<times> kernel" where
  "unix_Close k n =
     (if n \<in> set (map fst (fdtable k))
      then (None, k\<lparr>fdtable := filter (\<lambda>e. fst e \<noteq> n) (fdtable k)\<rparr>)
      else (Some (Errno EBADF), k))"

text \<open>
  The bytes a transfer leaves in the caller's buffer: at most \<open>n\<close> bytes, and never
  more than the buffer holds, overwrite its beginning; the rest of the buffer keeps
  its contents.
\<close>

definition transfer :: "byte list \<Rightarrow> nat \<Rightarrow> byte list \<Rightarrow> byte list" where
  "transfer bytes n buf =
     (let moved = take (min n (length buf)) bytes in moved @ drop (length moved) buf)"

text \<open>
  Modelled from the spec: \<open>ioctl.Ioctl\<close>, the repository's wrapper of the \<open>ioctl\<close>
  system call (package \<open>ioctl\<close>; only that package's capability check is among the
  sources), together with the kernel's SG_IO request behind it. Following the
  executor's contract in the specification, one call is one pass-through transaction:
  it either fails outright with an errno, or fills in \<open>info\<close> and the status fields
  and moves the device's data into the response buffer.
\<close>

definition Ioctl :: "kernel \<Rightarrow> int \<Rightarrow> nat \<Rightarrow> sgIOHeader \<Rightarrow> error option \<times> sgIOHeader" where
  "Ioctl k n req hdr =
     (case map_of (fdtable k) n of
        None \<Rightarrow> (Some (Errno EBADF), hdr)
      | Some dev \<Rightarrow>
          if req \<noteq> SGIO then (Some (Errno ENOTTY), hdr)
          else
            (let r = dev (take (unat (cmdLen hdr)) (cmdp hdr)) in
             case reply_errno r of
               Some e \<Rightarrow> (Some (Errno e), hdr)
             | None \<Rightarrow>
                 (None,
                  hdr\<lparr>dxferp := transfer (reply_data r) (unat (dxferLen hdr)) (dxferp hdr),
                      status := reply_status r, hostStatus := reply_hostStatus r,
                      driverStatus := reply_driverStatus r, info := reply_info r\<rparr>)))"

section \<open>SCSI generic IO (package scsismart)\<close>

definition SCSIDevice_Open :: "kernel \<Rightarrow> SCSIDevice \<Rightarrow> (error option \<times> SCSIDevice) \<times> kernel" where
  "SCSIDevice_Open k d =
     (case unix_Open k (Name d) of ((n, err), k') \<Rightarrow> ((err, d\<lparr>fd := n\<rparr>), k'))"

definition SCSIDevice_Close :: "kernel \<Rightarrow> SCSIDevice \<Rightarrow> error option \<times> kernel" where
  "SCSIDevice_Close k d = unix_Close k (fd d)"

definition execSCSIGeneric ::
  "kernel \<Rightarrow> SCSIDevice \<Rightarrow> sgIOHeader \<Rightarrow> error option \<times> sgIOHeader" where
  "execSCSIGeneric k d hdr =
     (case Ioctl k (fd d) SGIO hdr of
        (Some err, hdr') \<Rightarrow> (Some err, hdr')
      | (None, hdr') \<Rightarrow>
          if info hdr' AND SGInfoOkMask \<noteq> SGInfoOk
          then (Some (sgIOErr (status hdr') (hostStatus hdr') (driverStatus hdr')), hdr')
          else (None, hdr'))"

text \<open>
  \<open>sendCDB\<close> returns the error and the response buffer as the call left it. Taking
  the address of element 0 of an empty command block or response buffer panics.
\<close>

definition sendCDB ::
  "kernel \<Rightarrow> SCSIDevice \<Rightarrow> byte list \<Rightarrow> byte list \<Rightarrow> (error option \<times> byte list) option" where
  "sendCDB k d cdb respBuf =
     (if respBuf = [] \<or> cdb = [] then None
      else
        (let senseBuf = replicate 32 (0 :: byte);
             header =
               \<lparr>interfaceID = 0x53, dxferDirection = SGDxferFromDev,
                cmdLen = of_nat (length cdb), mxSBLen = of_nat (length senseBuf),
                dxferLen = of_nat (length respBuf), dxferp = respBuf, cmdp = cdb,
                sbp = senseBuf, timeout = DefaultTimeout, status = 0, hostStatus = 0,
                driverStatus = 0, info = 0\<rparr>
         in case execSCSIGeneric k d header of (err, header') \<Rightarrow> Some (err, dxferp header')))"

definition SCSIDevice_SCSIInquiry ::
  "kernel \<Rightarrow> SCSIDevice \<Rightarrow> (InquiryResponse \<times> error option) option" where
  "SCSIDevice_SCSIInquiry k d =
     (let response = InquiryResponse_zero;
          respBuf = replicate INQRespLen (0 :: byte)
      in case BigEndian_PutUint16 (SCSIInquiry # replicate 5 0) 3 (of_nat (length respBuf)) of
           None \<Rightarrow> None
         | Some cdb \<Rightarrow>
             (case sendCDB k d cdb respBuf of
                None \<Rightarrow> None
              | Some (Some err, respBuf') \<Rightarrow> Some (response, Some err)
              | Some (None, respBuf') \<Rightarrow>
                  Some (snd (binary_Read_InquiryResponse respBuf' response), None)))"

definition modeSense ::
  "kernel \<Rightarrow> SCSIDevice \<Rightarrow> byte \<Rightarrow> byte \<Rightarrow> byte \<Rightarrow> (byte list \<times> error option) option" where
  "modeSense k d pageNo subPageNo pageCtrl =
     (let respBuf = replicate 64 (0 :: byte);
          cdb = [SCSIModeSense6, 0, push_bit 6 pageCtrl OR (pageNo AND 0x3f), subPageNo,
                 of_nat (length respBuf), 0]
      in case sendCDB k d cdb respBuf of
           None \<Rightarrow> None
         | Some (err, respBuf') \<Rightarrow> Some (respBuf', err))"

definition readCapacity :: "kernel \<Rightarrow> SCSIDevice \<Rightarrow> (uint64 \<times> error option) option" where
  "readCapacity k d =
     (let respBuf = replicate 8 (0 :: byte);
          cdb = SCSIReadCapacity10 # replicate 9 0
      in case sendCDB k d cdb respBuf of
           None \<Rightarrow> None
         | Some (Some err, respBuf') \<Rightarrow> Some (0, Some err)
         | Some (None, respBuf') \<Rightarrow>
             (case BigEndian_Uint32 (drop 0 respBuf') of
                None \<Rightarrow> None
              | Some lastLBA \<Rightarrow>
                  (if length respBuf' < 4 then None
                   else case BigEndian_Uint32 (drop 4 respBuf') of
                     None \<Rightarrow> None
                   | Some LBsize \<Rightarrow> Some ((ucast lastLBA + 1) * ucast LBsize, None))))"

text \<open>
  \<open>DetectSCSIType\<close> returns \<open>(Dev, error)\<close>: \<open>(nil, err)\<close> on failure, and a pointer to
  a \<open>SATA\<close> or to the \<open>SCSIDevice\<close> on success. The kernel state after the call is
  part of the result, since the call opens a file descriptor.
\<close>

definition DetectSCSIType ::
  "kernel \<Rightarrow> string \<Rightarrow> ((Dev option \<times> error option) \<times> kernel) option" where
  "DetectSCSIType k name =
     (let dev = \<lparr>Name = name, fd = 0\<rparr> in
      case SCSIDevice_Open k dev of
        ((Some err, dev'), k') \<Rightarrow> Some ((None, Some err), k')
      | ((None, dev'), k') \<Rightarrow>
          (case SCSIDevice_SCSIInquiry k' dev' of
             None \<Rightarrow> None
           | Some (inq, Some err) \<Rightarrow> Some ((None, Some err), k')
           | Some (inq, None) \<Rightarrow>
               if VendorID inq = [0x41, 0x54, 0x41, 0x20, 0x20, 0x20, 0x20, 0x20]
               then Some ((Some (Dev_SATA dev'), None), k')
               else Some ((Some (Dev_SCSIDevice dev'), None), k')))"

text \<open>
  \<open>DiskAttr\<close>; the fields carry the prefix \<open>attr_\<close> because several of their Go names
  are also names of other structs' fields, of a constant and of a method.
\<close>

record DiskAttr =
  attr_SCSIInquiry :: InquiryResponse
  attr_VendorID :: uint16
  attr_UserCapacity :: uint64
  attr_LBSize :: uint16
  attr_PBSize :: uint16
  attr_SerialNumber :: string
  attr_LuWWNDeviceID :: string
  attr_FirmwareRevision :: string
  attr_ModelNumber :: string
  attr_RotationRate :: uint16
  attr_ATAMajorVersion :: string
  attr_ATAMinorVersion :: string
  attr_Transport :: string

definition DiskAttr_zero :: DiskAttr where
  "DiskAttr_zero =
     \<lparr>attr_SCSIInquiry = InquiryResponse_zero, attr_VendorID = 0, attr_UserCapacity = 0,
      attr_LBSize = 0, attr_PBSize = 0, attr_SerialNumber = '''', attr_LuWWNDeviceID = '''',
      attr_FirmwareRevision = '''', attr_ModelNumber = '''', attr_RotationRate = 0,
      attr_ATAMajorVersion = '''', attr_ATAMinorVersion = '''', attr_Transport = ''''\<rparr>"

text \<open>
  \<open>GetDiskInfo\<close> of the plain SCSI device: \<open>capacity, _ := d.readCapacity()\<close>, then a
  zero \<open>DiskAttr\<close> with the capacity filled in, and a nil error.
\<close>

definition SCSIDevice_GetDiskInfo ::
  "kernel \<Rightarrow> SCSIDevice \<Rightarrow> (DiskAttr \<times> error option) option" where
  "SCSIDevice_GetDiskInfo k d =
     (case readCapacity k d of
        None \<Rightarrow> None
      | Some (capacity, _) \<Rightarrow> Some (DiskAttr_zero\<lparr>attr_UserCapacity := capacity\<rparr>, None))"

section \<open>SCSI-ATA translation (package scsismart)\<close>

text \<open>
  \<open>AtaIdentify\<close> and \<open>GetDiskInfo\<close> of the \<open>SATA\<close> device. They take two parameters
  the sources do not fix: the byte order \<open>utilities.NativeEndian\<close>, and the command
  code \<open>atasmart.AtaIdentifyDevice\<close>, a constant whose declaration is not among the
  source files.
\<close>

definition AtaIdentify ::
  "ByteOrder \<Rightarrow> byte \<Rightarrow> kernel \<Rightarrow> SCSIDevice \<Rightarrow> (IdentDevData \<times> error option) option" where
  "AtaIdentify NativeEndian AtaIdentifyDevice k d =
     (let identifyBuf = IdentDevData_zero;
          responseBuf = replicate 512 (0 :: byte);
          cdb16 = (SCSIATAPassThru16 # replicate 15 0)
                    [1 := 0x08, 2 := 0x0e, 14 := AtaIdentifyDevice]
      in case sendCDB k d cdb16 responseBuf of
           None \<Rightarrow> None
         | Some (Some err, responseBuf') \<Rightarrow>
             Some (identifyBuf, Some (Errorf ''sendCDB ATA IDENTIFY'' err))
         | Some (None, responseBuf') \<Rightarrow>
             Some (snd (binary_Read_IdentDevData NativeEndian responseBuf' identifyBuf), None))"

definition SATA_GetDiskInfo ::
  "ByteOrder \<Rightarrow> byte \<Rightarrow> kernel \<Rightarrow> SCSIDevice \<Rightarrow> (DiskAttr \<times> error option) option" where
  "SATA_GetDiskInfo NativeEndian AtaIdentifyDevice k d =
     (case SCSIDevice_SCSIInquiry k d of
        None \<Rightarrow> None
      | Some (inqResp, Some err) \<Rightarrow> Some (DiskAttr_zero, Some (Errorf ''SgExecute INQUIRY'' err))
      | Some (inqResp, None) \<Rightarrow>
     (case readCapacity k d of
        None \<Rightarrow> None
      | Some (inqCapacity, Some err) \<Rightarrow>
          Some (DiskAttr_zero, Some (Errorf ''SgExecute readCapacity'' err))
      | Some (inqCapacity, None) \<Rightarrow>
     (case AtaIdentify NativeEndian AtaIdentifyDevice k d of
        None \<Rightarrow> None
      | Some (identifyBuf, Some err) \<Rightarrow> Some (DiskAttr_zero, Some err)
      | Some (identifyBuf, None) \<Rightarrow>
     (case GetSectorSize identifyBuf of (LogicalSec, PhysicalSec) \<Rightarrow>
      case GetSerialNumber identifyBuf of None \<Rightarrow> None | Some serial \<Rightarrow>
      case GetFirmwareRevision identifyBuf of None \<Rightarrow> None | Some firmware \<Rightarrow>
      case GetModelNumber identifyBuf of None \<Rightarrow> None | Some model \<Rightarrow>
        Some (DiskAttr_zero
               \<lparr>attr_SCSIInquiry := inqResp,
                attr_UserCapacity := inqCapacity,
                attr_LBSize := LogicalSec,
                attr_PBSize := PhysicalSec,
                attr_SerialNumber := string_of_bytes serial,
                attr_LuWWNDeviceID := GetWWN identifyBuf,
                attr_FirmwareRevision := string_of_bytes firmware,
                attr_ModelNumber := string_of_bytes model,
                attr_RotationRate := RotationRate identifyBuf,
                attr_ATAMajorVersion := GetATAMajorVersion identifyBuf,
                attr_ATAMinorVersion := GetATAMinorVersion identifyBuf,
                attr_Transport := Transport identifyBuf\<rparr>, None)))))"

section \<open>Reference definitions and example inputs\<close>

text \<open>
  The definitions of this section are not translations of code. They state what the
  theorems compare the code with (the value of a big-endian field, the pairwise swap
  of a list, the label tables), and they name the commands, replies and devices the
  example evaluations use.
\<close>

definition big_endian_nat :: "byte list \<Rightarrow> nat" where
  "big_endian_nat b = foldl (\<lambda>a x. a * 256 + unat x) 0 b"

fun swap_pairs :: "'a list \<Rightarrow> 'a list" where
  "swap_pairs (x # y # r) = y # x # swap_pairs r"
| "swap_pairs r = r"

definition ATA_major_labels :: "string list" where
  "ATA_major_labels =
     [''ATA-1'', ''ATA-2'', ''ATA-3'', ''ATA/ATAPI-4'', ''ATA/ATAPI-5'', ''ATA/ATAPI-6'',
      ''ATA/ATAPI-7'', ''ATA8-ACS'', ''ACS-2'', ''ACS-3'']"

text \<open>
  The major-version decode read with a 1-based index of the most significant set bit
  (bit 0 has index 1, so the index is \<open>bits.Len\<close>), as one sentence of the
  specification words it.
\<close>

definition spec_MajorVersion_1based :: "uint16 \<Rightarrow> string" where
  "spec_MajorVersion_1based w =
     (if w = 0 \<or> w = 0xffff then ''This device does not report ATA major version''
      else (let i = bits_Len (unat w) in
            if 1 \<le> i \<and> i \<le> 10 then ATA_major_labels ! (i - 1) else ''''))"

definition SATA_labels :: "string list" where
  "SATA_labels =
     ['' ATA8-AST'', '' SATA 1.0a'', '' SATA II Ext'', '' SATA 2.5'', '' SATA 2.6'',
      '' SATA 3.0'', '' SATA 3.1'', '' SATA 3.2'']"

text \<open>The command blocks \<open>readCapacity\<close> and \<open>SCSIInquiry\<close> send, written out.\<close>

definition read_capacity_cdb :: "byte list" where
  "read_capacity_cdb = [0x25, 0, 0, 0, 0, 0, 0, 0, 0, 0]"

definition inquiry_cdb :: "byte list" where
  "inquiry_cdb = [0x12, 0, 0, 0, 0x24, 0]"

text \<open>A reply the executor accepts: the system call succeeded and \<open>info\<close> says OK.\<close>

definition reply_good :: "sg_reply \<Rightarrow> bool" where
  "reply_good r = (reply_errno r = None \<and> reply_info r AND SGInfoOkMask = SGInfoOk)"

definition data_reply :: "byte list \<Rightarrow> sg_reply" where
  "data_reply bytes =
     \<lparr>reply_errno = None, reply_info = 0, reply_status = 0, reply_hostStatus = 0,
      reply_driverStatus = 0, reply_data = bytes\<rparr>"

definition errno_reply :: "nat \<Rightarrow> sg_reply" where
  "errno_reply e =
     \<lparr>reply_errno = Some e, reply_info = 0, reply_status = 0, reply_hostStatus = 0,
      reply_driverStatus = 0, reply_data = []\<rparr>"

text \<open>
  Example devices. Each answers the commands named and fails every other command with
  \<open>EIO\<close> (errno 5). \<open>kernel_with dev\<close> is a kernel in which \<open>/dev/sda\<close> is that device
  and file descriptor 3 is already open on it; \<open>kernel_closed dev\<close> is the same kernel
  before the device is opened, with the three standard descriptors in use.
\<close>

definition disk_120GB :: device where
  "disk_120GB cdb =
     (if cdb = read_capacity_cdb
      then data_reply [0x0d, 0xf9, 0x4b, 0xaf, 0x00, 0x00, 0x02, 0x00]
      else errno_reply 5)"

definition disk_one_block :: device where
  "disk_one_block cdb =
     (if cdb = read_capacity_cdb
      then data_reply [0x00, 0x00, 0x00, 0x00, 0x00, 0x00, 0x02, 0x00]
      else errno_reply 5)"

definition kernel_with :: "device \<Rightarrow> kernel" where
  "kernel_with dev =
     \<lparr>nodes = (\<lambda>path. if path = ''/dev/sda'' then Inr dev else Inl 2),
      fdtable = [(3, dev)]\<rparr>"

definition sda :: SCSIDevice where
  "sda = \<lparr>Name = ''/dev/sda'', fd = 3\<rparr>"

text \<open>The fields of an INQUIRY response at their byte offsets in a buffer.\<close>

definition inquiry_fields :: "byte list \<Rightarrow> InquiryResponse" where
  "inquiry_fields buf =
     \<lparr>Peripheral = buf ! 0, Version = buf ! 2, VendorID = take 8 (drop 8 buf),
      ProductID = take 16 (drop 16 buf), ProductRev = take 4 (drop 32 buf)\<rparr>"

text \<open>
  \<open>tty\<close> stands for whatever the standard descriptors are open on. \<open>dead_disk\<close> fails
  every command. \<open>short_inquiry_disk\<close> transfers only the first 20 bytes of an INQUIRY
  response. \<open>ata_disk\<close> is a SATA disk behind the translation layer,
  \<open>no_capacity_disk\<close> the same disk failing READ CAPACITY(10), and
  \<open>near_ata_disk\<close> a device whose vendor id differs from "ATA" and five spaces in the
  last byte only.
\<close>

definition tty :: device where
  "tty cdb = errno_reply 25"

definition dead_disk :: device where
  "dead_disk cdb = errno_reply 5"

definition short_inquiry_disk :: device where
  "short_inquiry_disk cdb =
     (if cdb = inquiry_cdb
      then data_reply ([0x00, 0x00, 0x05, 0x02, 0x5b, 0x00, 0x00, 0x02] @
                       map of_char ''ATA     '' @ map of_char ''Sams'')
      else errno_reply 5)"

definition ata_disk :: device where
  "ata_disk cdb =
     (if cdb = inquiry_cdb
      then data_reply ([0x00, 0x00, 0x05, 0x02, 0x5b, 0x00, 0x00, 0x02] @
                       map of_char ''ATA     '' @ map of_char ''Samsung SSD 850 '' @
                       map of_char ''2B6Q'')
      else if cdb = read_capacity_cdb
      then data_reply [0x0d, 0xf9, 0x4b, 0xaf, 0x00, 0x00, 0x02, 0x00]
      else errno_reply 5)"

definition no_capacity_disk :: device where
  "no_capacity_disk cdb =
     (if cdb = inquiry_cdb
      then data_reply ([0x00, 0x00, 0x05, 0x02, 0x5b, 0x00, 0x00, 0x02] @
                       map of_char ''ATA     '' @ map of_char ''Samsung SSD 850 '' @
                       map of_char ''2B6Q'')
      else errno_reply 5)"

definition near_ata_disk :: device where
  "near_ata_disk cdb =
     (if cdb = inquiry_cdb
      then data_reply ([0x00, 0x00, 0x06, 0x12, 0x8b, 0x01, 0x10, 0x02] @
                       map of_char ''ATA    X'' @ map of_char ''ST1200MM0009    '' @
                       map of_char ''CN03'')
      else errno_reply 5)"

definition kernel_closed :: "device \<Rightarrow> kernel" where
  "kernel_closed dev =
     \<lparr>nodes = (\<lambda>path. if path = ''/dev/sda'' then Inr dev else Inl 2),
      fdtable = [(0, tty), (1, tty), (2, tty)]\<rparr>"

section \<open>Properties of the utilities\<close>

text \<open>\<open>bits.Len\<close> is the bit length: \<open>bits_Len n \<le> k\<close> exactly when \<open>n < 2 ^ k\<close>.\<close>

lemma bits_Len_le_iff: "bits_Len n \<le> k \<longleftrightarrow> n < 2 ^ k"
proof (induction k arbitrary: n)
  case 0
  show ?case by (subst bits_Len.simps) simp
next
  case (Suc k)
  show ?case
  proof (cases "n = 0")
    case True
    then show ?thesis by (subst bits_Len.simps) simp
  next
    case False
    have "bits_Len n \<le> Suc k \<longleftrightarrow> bits_Len (n div 2) \<le> k"
      using False by (subst bits_Len.simps) simp
    also have "\<dots> \<longleftrightarrow> n div 2 < 2 ^ k" by (rule Suc.IH)
    also have "\<dots> \<longleftrightarrow> n < 2 ^ Suc k" by auto
    finally show ?thesis .
  qed
qed

lemma bits_Len_eq_Suc:
  assumes "2 ^ i \<le> n" and "n < 2 ^ Suc i"
  shows "bits_Len n = Suc i"
proof -
  have "bits_Len n \<le> Suc i" using assms(2) by (simp only: bits_Len_le_iff)
  moreover have "\<not> bits_Len n \<le> i" using assms(1) by (simp only: bits_Len_le_iff)
  ultimately show ?thesis by simp
qed

lemma unat_ucast_16_64: "unat (ucast (w :: uint16) :: uint) = unat w"
proof -
  have "unat w < 2 ^ 16" using unsigned_less [of w, where 'a = nat] by simp
  then have "unat w < 2 ^ 64" by simp
  then show ?thesis by (simp add: unsigned_ucast_eq take_bit_nat_eq_self)
qed

text \<open>
  For a non-zero argument \<open>MSignificantBit\<close> is the 0-based position \<open>i\<close> of the
  highest set bit, that is, the \<open>i\<close> with \<open>2 ^ i \<le> x < 2 ^ (i + 1)\<close>.
\<close>

lemma MSignificantBit_bounds:
  assumes "2 ^ i \<le> unat w" and "unat w < 2 ^ Suc i"
  shows "MSignificantBit w = int i"
proof -
  have "0 < (2::nat) ^ i" by simp
  with assms(1) have "unat w \<noteq> 0" by linarith
  then have "w \<noteq> 0" by auto
  moreover have "bits_Len (unat w) = Suc i" using assms by (rule bits_Len_eq_Suc)
  ultimately show ?thesis by (simp add: MSignificantBit_def)
qed

lemma MSignificantBit_ucast:
  assumes "2 ^ i \<le> unat (w :: uint16)" and "unat w < 2 ^ Suc i"
  shows "MSignificantBit (ucast w) = int i"
  by (rule MSignificantBit_bounds) (simp_all only: unat_ucast_16_64 assms)

lemma Sprintf_sharp_0x_examples:
  "Sprintf_sharp_0x 3 0x100 = ''0x100''"
  "Sprintf_sharp_0x 3 5 = ''0x005''"
  "Sprintf_sharp_0x 4 0x2abc = ''0x2abc''"
  by (simp_all add: Sprintf_sharp_0x_def hex.simps hexdigit_def numeral_2_eq_2)

section \<open>The ATA IDENTIFY decoder\<close>

subsection \<open>ATA major version\<close>

lemma GetATAMajorVersion_index:
  assumes "MajorVer d \<noteq> 0" and "MajorVer d \<noteq> 0xffff"
    and "2 ^ i \<le> unat (MajorVer d)" and "unat (MajorVer d) < 2 ^ Suc i"
  shows "GetATAMajorVersion d =
    (if 1 \<le> i \<and> i \<le> 10 then ATA_major_labels ! (i - 1) else '''')"
proof -
  have m: "MSignificantBit (ucast (MajorVer d)) = int i"
    using assms(3,4) by (rule MSignificantBit_ucast)
  have "10 < i \<or> i = 10 \<or> i = 9 \<or> i = 8 \<or> i = 7 \<or> i = 6 \<or> i = 5 \<or> i = 4 \<or>
      i = 3 \<or> i = 2 \<or> i = 1 \<or> i = 0" by arith
  then show ?thesis
    by (elim disjE)
      (simp_all add: GetATAMajorVersion_def assms(1,2) m ATA_major_labels_def)
qed

text \<open>
  Claim C3, as amended. For every 16-bit major-version word: if the word is 0 or
  0xFFFF, \<open>GetATAMajorVersion\<close> reports the not-reported string; otherwise, with \<open>i\<close>
  the 0-based index of the most significant set bit (\<open>2 ^ i \<le> word < 2 ^ (i + 1)\<close>),
  indices 1 through 10 give the labels "ATA-1" through "ACS-3" and every other index
  (0, and 11 through 15) gives the empty string. In particular the word 0x0010 (bit 4
  set) gives "ATA/ATAPI-4".
\<close>

theorem GetATAMajorVersion_decode:
  "(MajorVer d = 0 \<or> MajorVer d = 0xffff \<longrightarrow>
      GetATAMajorVersion d = ''This device does not report ATA major version'') \<and>
   (MajorVer d \<noteq> 0 \<and> MajorVer d \<noteq> 0xffff \<and>
    2 ^ i \<le> unat (MajorVer d) \<and> unat (MajorVer d) < 2 ^ Suc i \<longrightarrow>
      GetATAMajorVersion d =
        (if 1 \<le> i \<and> i \<le> 10 then ATA_major_labels ! (i - 1) else '''')) \<and>
   GetATAMajorVersion (d\<lparr>MajorVer := 0x0010\<rparr>) = ''ATA/ATAPI-4''"
proof (intro conjI impI)
  assume "MajorVer d = 0 \<or> MajorVer d = 0xffff"
  then show "GetATAMajorVersion d = ''This device does not report ATA major version''"
    by (auto simp: GetATAMajorVersion_def)
next
  assume "MajorVer d \<noteq> 0 \<and> MajorVer d \<noteq> 0xffff \<and>
    2 ^ i \<le> unat (MajorVer d) \<and> unat (MajorVer d) < 2 ^ Suc i"
  then show "GetATAMajorVersion d =
        (if 1 \<le> i \<and> i \<le> 10 then ATA_major_labels ! (i - 1) else '''')"
    by (intro GetATAMajorVersion_index) simp_all
next
  have "GetATAMajorVersion (d\<lparr>MajorVer := 0x0010\<rparr>) =
      (if 1 \<le> (4::nat) \<and> (4::nat) \<le> 10 then ATA_major_labels ! (4 - 1) else '''')"
    by (rule GetATAMajorVersion_index) simp_all
  then show "GetATAMajorVersion (d\<lparr>MajorVer := 0x0010\<rparr>) = ''ATA/ATAPI-4''"
    by (simp add: ATA_major_labels_def)
qed

text \<open>
  The theorem at concrete words: the two not-reported words, the lowest and the
  highest labelled index, and the unlabelled indices 0 and 11.
\<close>

theorem GetATAMajorVersion_decode_witness:
  "GetATAMajorVersion (IdentDevData_zero\<lparr>MajorVer := 0\<rparr>) =
      ''This device does not report ATA major version'' \<and>
   GetATAMajorVersion (IdentDevData_zero\<lparr>MajorVer := 0xffff\<rparr>) =
      ''This device does not report ATA major version'' \<and>
   GetATAMajorVersion (IdentDevData_zero\<lparr>MajorVer := 0x0002\<rparr>) = ''ATA-1'' \<and>
   GetATAMajorVersion (IdentDevData_zero\<lparr>MajorVer := 0x07fe\<rparr>) = ''ACS-3'' \<and>
   GetATAMajorVersion (IdentDevData_zero\<lparr>MajorVer := 0x0001\<rparr>) = '''' \<and>
   GetATAMajorVersion (IdentDevData_zero\<lparr>MajorVer := 0x0800\<rparr>) = ''''"
  using GetATAMajorVersion_decode [of "IdentDevData_zero\<lparr>MajorVer := 0\<rparr>" 0]
    GetATAMajorVersion_decode [of "IdentDevData_zero\<lparr>MajorVer := 0xffff\<rparr>" 0]
    GetATAMajorVersion_decode [of "IdentDevData_zero\<lparr>MajorVer := 0x0002\<rparr>" 1]
    GetATAMajorVersion_decode [of "IdentDevData_zero\<lparr>MajorVer := 0x07fe\<rparr>" 10]
    GetATAMajorVersion_decode [of "IdentDevData_zero\<lparr>MajorVer := 0x0001\<rparr>" 0]
    GetATAMajorVersion_decode [of "IdentDevData_zero\<lparr>MajorVer := 0x0800\<rparr>" 11]
  by (simp add: ATA_major_labels_def)

text \<open>
  Claim C3 as written counts the index from 1. The word 0x0002 has its only set bit at
  1-based index 2, which the claim maps to "ATA-2"; the code returns "ATA-1".
\<close>

theorem GetATAMajorVersion_one_based_counterexample:
  "GetATAMajorVersion (IdentDevData_zero\<lparr>MajorVer := 0x0002\<rparr>) = ''ATA-1'' \<and>
   spec_MajorVersion_1based 0x0002 = ''ATA-2''"
  by (simp add: GetATAMajorVersion_def MSignificantBit_def spec_MajorVersion_1based_def
      ATA_major_labels_def bits_Len.simps)

subsection \<open>Transport\<close>

lemma Transport_not_reported:
  "TransportMajor d = 0 \<or> TransportMajor d = 0xffff \<Longrightarrow>
     Transport d = ''This device does not report transport''"
  by (auto simp: Transport_def)

lemma Transport_parallel:
  "TransportMajor d \<noteq> 0 \<Longrightarrow> TransportMajor d \<noteq> 0xffff \<Longrightarrow>
   drop_bit 12 (TransportMajor d) = 0 \<Longrightarrow> Transport d = ''Parallel ATA''"
  by (simp add: Transport_def)

lemma Transport_serial_zero:
  assumes "TransportMajor d \<noteq> 0" and "TransportMajor d \<noteq> 0xffff"
    and "drop_bit 12 (TransportMajor d) = 1" and "TransportMajor d AND 0x0fff = 0"
  shows "Transport d = ''Serial ATA ATA8-AST''"
  using assms by (simp add: Transport_def MSignificantBit_def)

lemma Transport_serial_index:
  assumes "TransportMajor d \<noteq> 0" and "TransportMajor d \<noteq> 0xffff"
    and "drop_bit 12 (TransportMajor d) = 1"
    and "2 ^ i \<le> unat (TransportMajor d AND 0x0fff)"
    and "unat (TransportMajor d AND 0x0fff) < 2 ^ Suc i"
  shows "Transport d = ''Serial ATA'' @
     (if i \<le> 7 then SATA_labels ! i
      else '' SATA ('' @ Sprintf_sharp_0x 3 (unat (TransportMajor d AND 0x0fff)) @ '')'')"
proof -
  have m: "MSignificantBit (ucast (TransportMajor d AND 0x0fff)) = int i"
    using assms(4,5) by (rule MSignificantBit_ucast)
  have "7 < i \<or> i = 7 \<or> i = 6 \<or> i = 5 \<or> i = 4 \<or> i = 3 \<or> i = 2 \<or> i = 1 \<or> i = 0"
    by arith
  then show ?thesis
    by (elim disjE)
      (simp_all add: Transport_def assms(1,2,3) m SATA_labels_def)
qed

lemma Transport_pcie:
  "TransportMajor d \<noteq> 0 \<Longrightarrow> TransportMajor d \<noteq> 0xffff \<Longrightarrow>
   drop_bit 12 (TransportMajor d) = 0xe \<Longrightarrow>
   Transport d = ''PCIe ('' @ Sprintf_sharp_0x 3 (unat (TransportMajor d AND 0x0fff)) @ '')''"
  by (simp add: Transport_def)

lemma Transport_unknown:
  "TransportMajor d \<noteq> 0 \<Longrightarrow> TransportMajor d \<noteq> 0xffff \<Longrightarrow>
   drop_bit 12 (TransportMajor d) \<noteq> 0 \<Longrightarrow> drop_bit 12 (TransportMajor d) \<noteq> 1 \<Longrightarrow>
   drop_bit 12 (TransportMajor d) \<noteq> 0xe \<Longrightarrow>
   Transport d = ''Unknown ('' @ Sprintf_sharp_0x 4 (unat (TransportMajor d)) @ '')''"
  by (simp add: Transport_def)

text \<open>
  Claim C4, as amended. For every 16-bit transport-major word: 0 and 0xFFFF give the
  not-reported string. Otherwise the top nibble (the word shifted right by 12)
  decides: 0x0 gives "Parallel ATA"; 0x1 gives "Serial ATA" followed by the label of
  the 0-based index \<open>i\<close> of the most significant set bit of the low 12 bits
  (\<open>2 ^ i \<le> low < 2 ^ (i + 1)\<close>, and index 0 when the low 12 bits are all zero), indices
  0 through 7 giving " ATA8-AST" through " SATA 3.2" and indices 8 through 11 giving
  " SATA (0x...)" with the low 12 bits in hexadecimal; 0xE gives "PCIe (0x...)" with
  the low 12 bits in hexadecimal; any other nibble gives "Unknown (0x...)" with the
  whole word in hexadecimal. In particular 0x1020 (bit 5 of the low 12 bits) decodes
  to "Serial ATA SATA 3.0", and 0x1005 (highest set bit 2) to "Serial ATA SATA II Ext".
\<close>

theorem Transport_decode:
  "(TransportMajor d = 0 \<or> TransportMajor d = 0xffff \<longrightarrow>
      Transport d = ''This device does not report transport'') \<and>
   (TransportMajor d \<noteq> 0 \<and> TransportMajor d \<noteq> 0xffff \<longrightarrow>
      (drop_bit 12 (TransportMajor d) = 0x0 \<longrightarrow> Transport d = ''Parallel ATA'') \<and>
      (drop_bit 12 (TransportMajor d) = 0x1 \<and> TransportMajor d AND 0x0fff = 0 \<longrightarrow>
         Transport d = ''Serial ATA ATA8-AST'') \<and>
      (drop_bit 12 (TransportMajor d) = 0x1 \<and>
       2 ^ i \<le> unat (TransportMajor d AND 0x0fff) \<and>
       unat (TransportMajor d AND 0x0fff) < 2 ^ Suc i \<longrightarrow>
         Transport d = ''Serial ATA'' @
           (if i \<le> 7 then SATA_labels ! i
            else '' SATA ('' @
              Sprintf_sharp_0x 3 (unat (TransportMajor d AND 0x0fff)) @ '')'')) \<and>
      (drop_bit 12 (TransportMajor d) = 0xe \<longrightarrow>
         Transport d =
           ''PCIe ('' @ Sprintf_sharp_0x 3 (unat (TransportMajor d AND 0x0fff)) @ '')'') \<and>
      (drop_bit 12 (TransportMajor d) \<noteq> 0x0 \<and> drop_bit 12 (TransportMajor d) \<noteq> 0x1 \<and>
       drop_bit 12 (TransportMajor d) \<noteq> 0xe \<longrightarrow>
         Transport d =
           ''Unknown ('' @ Sprintf_sharp_0x 4 (unat (TransportMajor d)) @ '')'')) \<and>
   Transport (d\<lparr>TransportMajor := 0x1020\<rparr>) = ''Serial ATA SATA 3.0'' \<and>
   Transport (d\<lparr>TransportMajor := 0x1005\<rparr>) = ''Serial ATA SATA II Ext''"
proof -
  have a: "Transport (d\<lparr>TransportMajor := 0x1020\<rparr>) = ''Serial ATA SATA 3.0''"
    using Transport_serial_index [of "d\<lparr>TransportMajor := 0x1020\<rparr>" 5]
    by (simp add: SATA_labels_def)
  have b: "Transport (d\<lparr>TransportMajor := 0x1005\<rparr>) = ''Serial ATA SATA II Ext''"
    using Transport_serial_index [of "d\<lparr>TransportMajor := 0x1005\<rparr>" 2]
    by (simp add: SATA_labels_def)
  show ?thesis
    using a b Transport_not_reported [of d] Transport_parallel [of d]
      Transport_serial_zero [of d] Transport_serial_index [of d i]
      Transport_pcie [of d] Transport_unknown [of d]
    by blast
qed

text \<open>The theorem at one concrete word for each branch of the decode.\<close>

theorem Transport_decode_witness:
  "Transport (IdentDevData_zero\<lparr>TransportMajor := 0\<rparr>) =
      ''This device does not report transport'' \<and>
   Transport (IdentDevData_zero\<lparr>TransportMajor := 0x0001\<rparr>) = ''Parallel ATA'' \<and>
   Transport (IdentDevData_zero\<lparr>TransportMajor := 0x1000\<rparr>) = ''Serial ATA ATA8-AST'' \<and>
   Transport (IdentDevData_zero\<lparr>TransportMajor := 0x1001\<rparr>) = ''Serial ATA ATA8-AST'' \<and>
   Transport (IdentDevData_zero\<lparr>TransportMajor := 0x10ff\<rparr>) = ''Serial ATA SATA 3.2'' \<and>
   Transport (IdentDevData_zero\<lparr>TransportMajor := 0x1100\<rparr>) = ''Serial ATA SATA (0x100)'' \<and>
   Transport (IdentDevData_zero\<lparr>TransportMajor := 0xe005\<rparr>) = ''PCIe (0x005)'' \<and>
   Transport (IdentDevData_zero\<lparr>TransportMajor := 0x2abc\<rparr>) = ''Unknown (0x2abc)''"
  using Transport_decode [of "IdentDevData_zero\<lparr>TransportMajor := 0\<rparr>" 0]
    Transport_decode [of "IdentDevData_zero\<lparr>TransportMajor := 0x0001\<rparr>" 0]
    Transport_decode [of "IdentDevData_zero\<lparr>TransportMajor := 0x1000\<rparr>" 0]
    Transport_decode [of "IdentDevData_zero\<lparr>TransportMajor := 0x1001\<rparr>" 0]
    Transport_decode [of "IdentDevData_zero\<lparr>TransportMajor := 0x10ff\<rparr>" 7]
    Transport_decode [of "IdentDevData_zero\<lparr>TransportMajor := 0x1100\<rparr>" 8]
    Transport_decode [of "IdentDevData_zero\<lparr>TransportMajor := 0xe005\<rparr>" 0]
    Transport_decode [of "IdentDevData_zero\<lparr>TransportMajor := 0x2abc\<rparr>" 0]
  by (simp add: SATA_labels_def Sprintf_sharp_0x_examples)

text \<open>
  Claim C4 as written ends with the example that the word 0x1005 decodes to
  "Serial ATA SATA 3.0". The low 12 bits of 0x1005 are 0x005, whose highest set bit is
  bit 2, so the code returns "Serial ATA SATA II Ext".
\<close>

theorem Transport_0x1005_counterexample:
  "Transport (IdentDevData_zero\<lparr>TransportMajor := 0x1005\<rparr>) \<noteq> ''Serial ATA SATA 3.0''"
  by (simp add: Transport_def MSignificantBit_def bits_Len.simps)

subsection \<open>Sector sizes\<close>

text \<open>
  Claim C5 at the word 0x6007 (bits 15:14 = 01, bit 13 set, low nibble 7): the claim
  gives the physical size 512 * 2 ^ 7 = 65536; the code shifts a \<open>uint16\<close>, and the
  result is 0.
\<close>

theorem GetSectorSize_0x6007:
  "GetSectorSize (IdentDevData_zero\<lparr>SectorSize := 0x6007\<rparr>) = (512, 0)"
  by (simp add: GetSectorSize_def)

subsection \<open>Byte-order correction\<close>

lemma length_swap_pairs: "length (swap_pairs xs) = length xs"
  by (induction xs rule: swap_pairs.induct) simp_all

lemma swap_pairs_involutive: "swap_pairs (swap_pairs xs) = xs"
  by (induction xs rule: swap_pairs.induct) simp_all

text \<open>
  The loop invariant: after the pairs below the even index \<open>i\<close> are done, the rest of
  the run leaves the first \<open>i\<close> bytes of \<open>tmp\<close> alone and writes the swapped pairs of
  the rest of \<open>b\<close> behind them.
\<close>

lemma swapByteOrder_loop_even:
  assumes "even (length b)" and "even i" and "i \<le> length b" and "length tmp = length b"
  shows "swapByteOrder_loop i b tmp = Some (take i tmp @ swap_pairs (drop i b))"
  using assms
proof (induction i b tmp rule: swapByteOrder_loop.induct)
  case (1 i b tmp)
  show ?case
  proof (cases "i < length b")
    case False
    with "1.prems" have "i = length b" by simp
    then show ?thesis using "1.prems" by (subst swapByteOrder_loop.simps) simp
  next
    case True
    have "i + 1 \<noteq> length b" using "1.prems"(1,2) by (metis Suc_eq_plus1 even_Suc)
    with True have lt: "i + 1 < length b" by simp
    let ?tmp = "tmp[i := b ! (i + 1), i + 1 := b ! i]"
    have IH: "swapByteOrder_loop (i + 2) b ?tmp =
        Some (take (i + 2) ?tmp @ swap_pairs (drop (i + 2) b))"
      using True lt "1.prems" by (intro "1.IH") simp_all
    have d: "drop i b = b ! i # b ! (i + 1) # drop (i + 2) b"
      using True lt by (simp add: Cons_nth_drop_Suc)
    have t: "take (i + 2) ?tmp = take i tmp @ [b ! (i + 1), b ! i]"
      using lt "1.prems"(4) by (simp add: take_Suc_conv_app_nth nth_list_update)
    have "swapByteOrder_loop i b tmp = swapByteOrder_loop (i + 2) b ?tmp"
      using True lt "1.prems"(4) by (subst swapByteOrder_loop.simps) simp
    then show ?thesis by (simp only: IH d t) simp
  qed
qed

lemma swapByteOrder_even:
  "even (length b) \<Longrightarrow> swapByteOrder b = Some (swap_pairs b)"
  by (simp add: swapByteOrder_def swapByteOrder_loop_even)

lemma swapByteOrder_loop_odd:
  assumes "odd (length b)" and "even i" and "i \<le> length b" and "length tmp = length b"
  shows "swapByteOrder_loop i b tmp = None"
  using assms
proof (induction i b tmp rule: swapByteOrder_loop.induct)
  case (1 i b tmp)
  have "i \<noteq> length b" using "1.prems"(1,2) by metis
  with "1.prems"(3) have lt: "i < length b" by simp
  show ?case
  proof (cases "i + 1 < length b")
    case True
    have "swapByteOrder_loop (i + 2) b (tmp[i := b ! (i + 1), i + 1 := b ! i]) = None"
      using True lt "1.prems" by (intro "1.IH") simp_all
    then show ?thesis using True lt "1.prems"(4) by (subst swapByteOrder_loop.simps) simp
  next
    case False
    then show ?thesis using lt by (subst swapByteOrder_loop.simps) simp
  qed
qed

lemma swapByteOrder_odd: "odd (length b) \<Longrightarrow> swapByteOrder b = None"
  by (simp add: swapByteOrder_def swapByteOrder_loop_odd)

text \<open>
  Claim C9. The pairwise byte-order correction is involutive: for every even-length
  byte buffer \<open>swapByteOrder\<close> returns (it does not panic), its result has the same
  length, and applying \<open>swapByteOrder\<close> to the result returns the original buffer.
\<close>

theorem swapByteOrder_involutive:
  "even (length b) \<Longrightarrow>
     (\<exists>t. swapByteOrder b = Some t \<and> length t = length b \<and> swapByteOrder t = Some b)"
proof -
  assume e: "even (length b)"
  have once: "swapByteOrder b = Some (swap_pairs b)"
    using e by (rule swapByteOrder_even)
  have len: "length (swap_pairs b) = length b"
    by (rule length_swap_pairs)
  then have "even (length (swap_pairs b))"
    using e by simp
  then have "swapByteOrder (swap_pairs b) = Some (swap_pairs (swap_pairs b))"
    by (rule swapByteOrder_even)
  then have twice: "swapByteOrder (swap_pairs b) = Some b"
    by (simp only: swap_pairs_involutive)
  show ?thesis
    by (intro exI [of _ "swap_pairs b"] conjI once len twice)
qed

theorem swapByteOrder_involutive_witness:
  "even (length [0x31, 0x32, 0x33, 0x34 :: byte]) \<and>
   swapByteOrder [0x31, 0x32, 0x33, 0x34] = Some [0x32, 0x31, 0x34, 0x33] \<and>
   swapByteOrder [0x32, 0x31, 0x34, 0x33] = Some [0x31, 0x32, 0x33, 0x34]"
  using swapByteOrder_involutive [of "[0x31, 0x32, 0x33, 0x34]"]
  by (simp add: swapByteOrder_def swapByteOrder_loop.simps)

text \<open>
  Claim C10. \<open>swapByteOrder\<close> indexes position \<open>i + 1\<close> for every even \<open>i\<close> below the
  length, so on every odd-length input it panics (index out of range). The text
  accessors pass the struct's arrays of 20, 40 and 8 bytes, so for every
  \<open>IdentDevData\<close> whose fields have the lengths the struct type fixes, each of
  \<open>GetSerialNumber\<close>, \<open>GetModelNumber\<close> and \<open>GetFirmwareRevision\<close> returns a value
  of the field's length.
\<close>

theorem swapByteOrder_accessors_total:
  "(odd (length b) \<longrightarrow> swapByteOrder b = None) \<and>
   (IdentDevData_sized d \<longrightarrow>
      (\<exists>s. GetSerialNumber d = Some s \<and> length s = 20) \<and>
      (\<exists>m. GetModelNumber d = Some m \<and> length m = 40) \<and>
      (\<exists>f. GetFirmwareRevision d = Some f \<and> length f = 8))"
proof (intro conjI impI)
  assume "odd (length b)"
  then show "swapByteOrder b = None" by (rule swapByteOrder_odd)
next
  assume "IdentDevData_sized d"
  then have "length (SerialNumber d) = 20" by (simp add: IdentDevData_sized_def)
  then show "\<exists>s. GetSerialNumber d = Some s \<and> length s = 20"
    by (simp add: GetSerialNumber_def swapByteOrder_even length_swap_pairs)
next
  assume "IdentDevData_sized d"
  then have "length (ModelNumber d) = 40" by (simp add: IdentDevData_sized_def)
  then show "\<exists>m. GetModelNumber d = Some m \<and> length m = 40"
    by (simp add: GetModelNumber_def swapByteOrder_even length_swap_pairs)
next
  assume "IdentDevData_sized d"
  then have "length (FirmwareRev d) = 8" by (simp add: IdentDevData_sized_def)
  then show "\<exists>f. GetFirmwareRevision d = Some f \<and> length f = 8"
    by (simp add: GetFirmwareRevision_def swapByteOrder_even length_swap_pairs)
qed

theorem swapByteOrder_accessors_total_witness:
  "odd (length [0x31, 0x32, 0x33 :: byte]) \<and> swapByteOrder [0x31, 0x32, 0x33] = None \<and>
   IdentDevData_sized IdentDevData_zero \<and>
   (\<exists>s. GetSerialNumber IdentDevData_zero = Some s \<and> length s = 20) \<and>
   (\<exists>m. GetModelNumber IdentDevData_zero = Some m \<and> length m = 40) \<and>
   (\<exists>f. GetFirmwareRevision IdentDevData_zero = Some f \<and> length f = 8)"
proof -
  have o: "odd (length [0x31, 0x32, 0x33 :: byte])" by simp
  have z: "IdentDevData_sized IdentDevData_zero"
    by (simp add: IdentDevData_sized_def IdentDevData_zero_def)
  show ?thesis
    using o z swapByteOrder_accessors_total [of "[0x31, 0x32, 0x33]" IdentDevData_zero]
    by blast
qed

section \<open>The SCSI command layer\<close>

subsection \<open>Transfers and the executor\<close>

lemma length_transfer: "length (transfer bytes n buf) = length buf"
  by (simp add: transfer_def Let_def)

lemma transfer_full: "length bytes = length buf \<Longrightarrow> transfer bytes (length buf) buf = bytes"
  by (simp add: transfer_def Let_def)

text \<open>
  The three outcomes of \<open>sendCDB\<close> on an open descriptor: the system call fails, the
  driver reports a status that is not OK, or the reply is accepted. In each case the
  buffer keeps its length.
\<close>

lemma sendCDB_errno:
  assumes "map_of (fdtable k) (fd d) = Some dev" and "cdb \<noteq> []" and "respBuf \<noteq> []"
    and "length cdb < 256" and "reply_errno (dev cdb) = Some e"
  shows "sendCDB k d cdb respBuf = Some (Some (Errno e), respBuf)"
  using assms
  by (simp add: sendCDB_def execSCSIGeneric_def Ioctl_def Let_def unsigned_of_nat
      take_bit_nat_eq_self)

lemma sendCDB_status:
  assumes "map_of (fdtable k) (fd d) = Some dev" and "cdb \<noteq> []" and "respBuf \<noteq> []"
    and "length cdb < 256" and "length respBuf < 2 ^ 32"
    and "reply_errno (dev cdb) = None"
    and "reply_info (dev cdb) AND SGInfoOkMask \<noteq> SGInfoOk"
  shows "sendCDB k d cdb respBuf =
     Some (Some (sgIOErr (reply_status (dev cdb)) (reply_hostStatus (dev cdb))
                   (reply_driverStatus (dev cdb))),
           transfer (reply_data (dev cdb)) (length respBuf) respBuf)"
  using assms
  by (simp add: sendCDB_def execSCSIGeneric_def Ioctl_def Let_def unsigned_of_nat
      take_bit_nat_eq_self)

lemma sendCDB_ok:
  assumes "map_of (fdtable k) (fd d) = Some dev" and "cdb \<noteq> []" and "respBuf \<noteq> []"
    and "length cdb < 256" and "length respBuf < 2 ^ 32"
    and "reply_errno (dev cdb) = None"
    and "reply_info (dev cdb) AND SGInfoOkMask = SGInfoOk"
  shows "sendCDB k d cdb respBuf =
     Some (None, transfer (reply_data (dev cdb)) (length respBuf) respBuf)"
  using assms
  by (simp add: sendCDB_def execSCSIGeneric_def Ioctl_def Let_def unsigned_of_nat
      take_bit_nat_eq_self)

subsection \<open>Big-endian fields\<close>

lemma or_push_bit_nat:
  fixes x y :: nat
  assumes "x < 2 ^ n"
  shows "x OR push_bit n y = x + y * 2 ^ n"
proof -
  have t: "take_bit n x = x" using assms by (simp add: take_bit_nat_eq_self)
  then have "x OR push_bit n y = take_bit n x OR push_bit n y" by simp
  also have "\<dots> = take_bit n x + push_bit n y"
    by (rule disjunctive_add [symmetric]) (auto simp: bit_take_bit_iff bit_push_bit_iff)
  finally show ?thesis using t by (simp add: push_bit_eq_mult)
qed

lemma unat_be32:
  fixes b0 b1 b2 b3 :: byte
  shows "unat (ucast b3 OR push_bit 8 (ucast b2) OR push_bit 16 (ucast b1)
      OR push_bit 24 (ucast b0) :: uint32) =
    unat b0 * 2 ^ 24 + unat b1 * 2 ^ 16 + unat b2 * 2 ^ 8 + unat b3"
proof -
  define n0 n1 n2 n3 where "n0 = unat b0" and "n1 = unat b1" and "n2 = unat b2" and "n3 = unat b3"
  have b: "n0 < 2 ^ 8" "n1 < 2 ^ 8" "n2 < 2 ^ 8" "n3 < 2 ^ 8"
    using unsigned_less [of b0, where 'a = nat] unsigned_less [of b1, where 'a = nat]
      unsigned_less [of b2, where 'a = nat] unsigned_less [of b3, where 'a = nat]
    by (simp_all add: n0_def n1_def n2_def n3_def)
  have t: "take_bit 32 n0 = n0" "take_bit 32 n1 = n1" "take_bit 32 n2 = n2" "take_bit 32 n3 = n3"
    "take_bit 32 (push_bit 8 n2) = push_bit 8 n2"
    "take_bit 32 (push_bit 16 n1) = push_bit 16 n1"
    "take_bit 32 (push_bit 24 n0) = push_bit 24 n0"
    using b by (simp_all add: take_bit_nat_eq_self push_bit_eq_mult)
  have e1: "n3 OR push_bit 8 n2 = n3 + n2 * 2 ^ 8"
    using b by (simp add: or_push_bit_nat)
  have e2: "(n3 + n2 * 2 ^ 8) OR push_bit 16 n1 = n3 + n2 * 2 ^ 8 + n1 * 2 ^ 16"
    using b by (intro or_push_bit_nat) simp
  have e3: "(n3 + n2 * 2 ^ 8 + n1 * 2 ^ 16) OR push_bit 24 n0 =
      n3 + n2 * 2 ^ 8 + n1 * 2 ^ 16 + n0 * 2 ^ 24"
    using b by (intro or_push_bit_nat) simp
  have "unat (ucast b3 OR push_bit 8 (ucast b2) OR push_bit 16 (ucast b1)
      OR push_bit 24 (ucast b0) :: uint32) =
      ((n3 OR push_bit 8 n2) OR push_bit 16 n1) OR push_bit 24 n0"
    unfolding unsigned_or_eq unsigned_push_bit_eq unsigned_ucast_eq
    by (simp add: t or.assoc flip: n0_def n1_def n2_def n3_def)
  also have "\<dots> = n3 + n2 * 2 ^ 8 + n1 * 2 ^ 16 + n0 * 2 ^ 24"
    by (simp only: e1 e2 e3)
  finally show ?thesis by (simp add: n0_def n1_def n2_def n3_def)
qed

lemma take4_nth:
  assumes "4 \<le> length b"
  shows "take 4 b = [b ! 0, b ! 1, b ! 2, b ! 3]"
proof -
  obtain x0 r0 where r0: "b = x0 # r0" "3 \<le> length r0" using assms by (cases b) auto
  obtain x1 r1 where r1: "r0 = x1 # r1" "2 \<le> length r1" using r0(2) by (cases r0) auto
  obtain x2 r2 where r2: "r1 = x2 # r2" "1 \<le> length r2" using r1(2) by (cases r1) auto
  obtain x3 r3 where r3: "r2 = x3 # r3" using r2(2) by (cases r2) auto
  show ?thesis by (simp add: r0(1) r1(1) r2(1) r3)
qed

lemma BigEndian_Uint32_value:
  assumes "4 \<le> length b"
  shows "\<exists>v. BigEndian_Uint32 b = Some v \<and> unat v = big_endian_nat (take 4 b)"
proof -
  have "unat (ucast (b ! 3) OR push_bit 8 (ucast (b ! 2)) OR push_bit 16 (ucast (b ! 1))
      OR push_bit 24 (ucast (b ! 0)) :: uint32) = big_endian_nat (take 4 b)"
    by (simp only: unat_be32 take4_nth [OF assms]) (simp add: big_endian_nat_def)
  then show ?thesis using assms by (simp add: BigEndian_Uint32_def)
qed

text \<open>
  The capacity product in 64 bits is exact: \<open>lastLBA + 1\<close> is at most \<open>2 ^ 32\<close> and
  the block size is below \<open>2 ^ 32\<close>, so the product is below \<open>2 ^ 64\<close>.
\<close>

lemma capacity_no_overflow:
  fixes lastLBA LBsize :: uint32
  shows "unat ((ucast lastLBA + 1) * ucast LBsize :: uint64) = (unat lastLBA + 1) * unat LBsize"
proof -
  have a: "unat lastLBA < 2 ^ 32" using unsigned_less [of lastLBA, where 'a = nat] by simp
  have b: "unat LBsize < 2 ^ 32" using unsigned_less [of LBsize, where 'a = nat] by simp
  have ua: "unat (ucast lastLBA :: uint64) = unat lastLBA"
    using a by (simp add: unsigned_ucast_eq take_bit_nat_eq_self)
  have ub: "unat (ucast LBsize :: uint64) = unat LBsize"
    using b by (simp add: unsigned_ucast_eq take_bit_nat_eq_self)
  have "unat (ucast lastLBA :: uint64) + unat (1 :: uint64) < 2 ^ 64"
    using a by (simp add: ua)
  then have u1: "unat (ucast lastLBA + 1 :: uint64) = unat lastLBA + 1"
    by (simp add: unat_add_lem [THEN iffD1] ua)
  have "(unat lastLBA + 1) * unat LBsize \<le> 2 ^ 32 * (2 ^ 32 - 1)"
    using a b by (intro mult_mono) simp_all
  then have "(unat lastLBA + 1) * unat LBsize < 2 ^ 64" by simp
  then have "unat (ucast lastLBA + 1 :: uint64) * unat (ucast LBsize :: uint64) < 2 ^ 64"
    by (simp only: u1 ub)
  then show ?thesis by (simp add: unat_mult_lem [THEN iffD1] u1 ub)
qed

subsection \<open>READ CAPACITY(10)\<close>

lemma readCapacity_ok:
  assumes "map_of (fdtable k) (fd d) = Some dev"
    and "reply_good (dev read_capacity_cdb)"
    and "length (reply_data (dev read_capacity_cdb)) = 8"
  shows "\<exists>capacity. readCapacity k d = Some (capacity, None) \<and>
     unat capacity =
       (big_endian_nat (take 4 (reply_data (dev read_capacity_cdb))) + 1) *
       big_endian_nat (drop 4 (reply_data (dev read_capacity_cdb)))"
proof -
  let ?resp = "reply_data (dev read_capacity_cdb)"
  have cdb: "SCSIReadCapacity10 # replicate 9 0 = read_capacity_cdb"
    by (simp add: SCSIReadCapacity10_def read_capacity_cdb_def numeral_eq_Suc)
  have "sendCDB k d read_capacity_cdb (replicate 8 0) =
      Some (None, transfer ?resp (length (replicate 8 (0::byte))) (replicate 8 0))"
    using assms(1,2) by (intro sendCDB_ok) (simp_all add: read_capacity_cdb_def reply_good_def)
  also have "transfer ?resp (length (replicate 8 (0::byte))) (replicate 8 0) = ?resp"
    using assms(3) by (intro transfer_full) simp
  finally have s: "sendCDB k d read_capacity_cdb (replicate 8 0) = Some (None, ?resp)" .
  obtain a where a: "BigEndian_Uint32 ?resp = Some a" "unat a = big_endian_nat (take 4 ?resp)"
    using BigEndian_Uint32_value [of ?resp] assms(3) by auto
  obtain b where b: "BigEndian_Uint32 (drop 4 ?resp) = Some b"
      "unat b = big_endian_nat (take 4 (drop 4 ?resp))"
    using BigEndian_Uint32_value [of "drop 4 ?resp"] assms(3) by auto
  have t: "take 4 (drop 4 ?resp) = drop 4 ?resp" using assms(3) by simp
  have "readCapacity k d = Some ((ucast a + 1) * ucast b, None)"
    using assms(3) by (simp add: readCapacity_def cdb s a(1) b(1))
  moreover have "unat ((ucast a + 1) * ucast b :: uint64) =
      (big_endian_nat (take 4 ?resp) + 1) * big_endian_nat (drop 4 ?resp)"
    by (simp only: capacity_no_overflow a(2) b(2) t)
  ultimately show ?thesis by blast
qed

text \<open>
  Claim C1. For every 8-byte READ CAPACITY(10) reply the executor accepts,
  \<open>readCapacity\<close> returns, with a nil error, the capacity
  \<open>(lastLBA + 1) * blockSize\<close>, where \<open>lastLBA\<close> is the big-endian value of the
  first four bytes and \<open>blockSize\<close> that of the next four; the equation is one of
  natural numbers, so the 64-bit product has not wrapped. In particular
  \<open>lastLBA = 0\<close>, \<open>blockSize = 512\<close> gives 512, and \<open>lastLBA = 234441647\<close>,
  \<open>blockSize = 512\<close> gives 120034123776.
\<close>

theorem readCapacity_capacity:
  "map_of (fdtable k) (fd d) = Some dev \<and> reply_good (dev read_capacity_cdb) \<and>
   length (reply_data (dev read_capacity_cdb)) = 8 \<longrightarrow>
     (\<exists>capacity. readCapacity k d = Some (capacity, None) \<and>
        unat capacity =
          (big_endian_nat (take 4 (reply_data (dev read_capacity_cdb))) + 1) *
          big_endian_nat (drop 4 (reply_data (dev read_capacity_cdb))) \<and>
        (big_endian_nat (take 4 (reply_data (dev read_capacity_cdb))) = 0 \<and>
         big_endian_nat (drop 4 (reply_data (dev read_capacity_cdb))) = 512 \<longrightarrow>
           capacity = 512) \<and>
        (big_endian_nat (take 4 (reply_data (dev read_capacity_cdb))) = 234441647 \<and>
         big_endian_nat (drop 4 (reply_data (dev read_capacity_cdb))) = 512 \<longrightarrow>
           capacity = 120034123776))"
proof (intro impI)
  let ?lba = "big_endian_nat (take 4 (reply_data (dev read_capacity_cdb)))"
  let ?bs = "big_endian_nat (drop 4 (reply_data (dev read_capacity_cdb)))"
  assume h: "map_of (fdtable k) (fd d) = Some dev \<and> reply_good (dev read_capacity_cdb) \<and>
    length (reply_data (dev read_capacity_cdb)) = 8"
  have "\<exists>capacity. readCapacity k d = Some (capacity, None) \<and>
      unat capacity = (?lba + 1) * ?bs"
    using h by (intro readCapacity_ok) simp_all
  then obtain capacity where c1: "readCapacity k d = Some (capacity, None)"
    and c2: "unat capacity = (?lba + 1) * ?bs"
    by (elim exE conjE)
  have p1: "?lba = 0 \<and> ?bs = 512 \<longrightarrow> capacity = 512"
  proof
    assume "?lba = 0 \<and> ?bs = 512"
    then have "unat capacity = unat (512 :: uint64)" using c2 by simp
    then show "capacity = 512" by (rule word_unat_eq_iff [THEN iffD2])
  qed
  have p2: "?lba = 234441647 \<and> ?bs = 512 \<longrightarrow> capacity = 120034123776"
  proof
    assume "?lba = 234441647 \<and> ?bs = 512"
    then have "unat capacity = unat (120034123776 :: uint64)" using c2 by simp
    then show "capacity = 120034123776" by (rule word_unat_eq_iff [THEN iffD2])
  qed
  show "\<exists>capacity. readCapacity k d = Some (capacity, None) \<and>
      unat capacity = (?lba + 1) * ?bs \<and>
      (?lba = 0 \<and> ?bs = 512 \<longrightarrow> capacity = 512) \<and>
      (?lba = 234441647 \<and> ?bs = 512 \<longrightarrow> capacity = 120034123776)"
    by (intro exI [of _ capacity] conjI c1 c2 p1 p2)
qed

text \<open>
  The theorem at the two replies of the specification's examples: a 120 GB disk
  (last block 234441647, bytes 0D F9 4B AF) and a disk of one 512-byte block.
\<close>

theorem readCapacity_capacity_witness:
  "readCapacity (kernel_with disk_120GB) sda = Some (120034123776, None) \<and>
   readCapacity (kernel_with disk_one_block) sda = Some (512, None)"
proof -
  have a: "big_endian_nat [0x0d, 0xf9, 0x4b, 0xaf :: byte] = 234441647"
    "big_endian_nat [0x00, 0x00, 0x00, 0x00 :: byte] = 0"
    "big_endian_nat [0x00, 0x00, 0x02, 0x00 :: byte] = 512"
    by (simp_all add: big_endian_nat_def)
  show ?thesis
    using readCapacity_capacity [of "kernel_with disk_120GB" sda disk_120GB]
      readCapacity_capacity [of "kernel_with disk_one_block" sda disk_one_block]
    by (auto simp add: kernel_with_def sda_def disk_120GB_def disk_one_block_def
        reply_good_def data_reply_def SGInfoOkMask_def SGInfoOk_def a)
qed

subsection \<open>INQUIRY\<close>

lemma replicate_5: "replicate 5 x = [x, x, x, x, x]"
  by (simp add: numeral_eq_Suc)

lemma inquiry_cdb_built:
  "BigEndian_PutUint16 (SCSIInquiry # replicate 5 0) 3 (of_nat INQRespLen) = Some inquiry_cdb"
  by (simp add: BigEndian_PutUint16_def SCSIInquiry_def INQRespLen_def inquiry_cdb_def
      replicate_5)

text \<open>What \<open>SCSIInquiry\<close> returns on an open descriptor, for every answer of the device.\<close>

lemma SCSIInquiry_reply:
  assumes "map_of (fdtable k) (fd d) = Some dev"
  shows "SCSIDevice_SCSIInquiry k d =
     (case reply_errno (dev inquiry_cdb) of
        Some e \<Rightarrow> Some (InquiryResponse_zero, Some (Errno e))
      | None \<Rightarrow>
          if reply_info (dev inquiry_cdb) AND SGInfoOkMask \<noteq> SGInfoOk
          then Some (InquiryResponse_zero,
                 Some (sgIOErr (reply_status (dev inquiry_cdb))
                         (reply_hostStatus (dev inquiry_cdb))
                         (reply_driverStatus (dev inquiry_cdb))))
          else Some (inquiry_fields
                       (transfer (reply_data (dev inquiry_cdb)) INQRespLen
                          (replicate INQRespLen 0)), None))"
proof -
  let ?r = "dev inquiry_cdb"
  let ?zeros = "replicate INQRespLen (0 :: byte)"
  have n: "inquiry_cdb \<noteq> []" "?zeros \<noteq> []" "length inquiry_cdb < 256"
    "length ?zeros < 2 ^ 32" "length ?zeros = INQRespLen"
    by (simp_all add: inquiry_cdb_def INQRespLen_def)
  show ?thesis
  proof (cases "reply_errno ?r")
    case (Some e)
    have "sendCDB k d inquiry_cdb ?zeros = Some (Some (Errno e), ?zeros)"
      using assms n(1,2,3) Some by (rule sendCDB_errno)
    then show ?thesis
      by (simp add: SCSIDevice_SCSIInquiry_def inquiry_cdb_built Some)
  next
    case None
    show ?thesis
    proof (cases "reply_info ?r AND SGInfoOkMask = SGInfoOk")
      case False
      have "sendCDB k d inquiry_cdb ?zeros =
          Some (Some (sgIOErr (reply_status ?r) (reply_hostStatus ?r) (reply_driverStatus ?r)),
                transfer (reply_data ?r) (length ?zeros) ?zeros)"
        using assms n(1,2,3,4) None False by (rule sendCDB_status)
      then show ?thesis
        using False by (simp add: SCSIDevice_SCSIInquiry_def inquiry_cdb_built None)
    next
      case True
      have s: "sendCDB k d inquiry_cdb ?zeros =
          Some (None, transfer (reply_data ?r) (length ?zeros) ?zeros)"
        using assms n(1,2,3,4) None True by (rule sendCDB_ok)
      have "length (transfer (reply_data ?r) (length ?zeros) ?zeros) = 36"
        by (simp add: length_transfer INQRespLen_def)
      then have "binary_Read_InquiryResponse (transfer (reply_data ?r) (length ?zeros) ?zeros)
          InquiryResponse_zero =
          (None, inquiry_fields (transfer (reply_data ?r) (length ?zeros) ?zeros))"
        by (simp add: binary_Read_InquiryResponse_def inquiry_fields_def)
      then show ?thesis
        using True by (simp add: SCSIDevice_SCSIInquiry_def inquiry_cdb_built None s n(5))
    qed
  qed
qed

text \<open>
  The decode step taken alone refuses a buffer of fewer than 36 bytes with the
  reader's end-of-file error and leaves the response untouched; \<open>SCSIInquiry\<close>
  does not look at that result, so every error it returns is one \<open>sendCDB\<close>
  returned.
\<close>

lemma binary_Read_InquiryResponse_short:
  "length buf < 36 \<Longrightarrow>
     binary_Read_InquiryResponse buf response =
       (Some (if buf = [] then EOF else ErrUnexpectedEOF), response)"
  by (simp add: binary_Read_InquiryResponse_def)

lemma SCSIInquiry_error_from_sendCDB:
  assumes "SCSIDevice_SCSIInquiry k d = Some (response, Some err)"
  shows "\<exists>cdb respBuf respBuf'. sendCDB k d cdb respBuf = Some (Some err, respBuf')"
  using assms
  by (auto simp: SCSIDevice_SCSIInquiry_def Let_def split: option.splits prod.splits)

text \<open>
  Claim C6, as amended. \<open>SCSIInquiry\<close> has no malformed-response condition. On an open
  descriptor it always decodes its own buffer of \<open>INQRespLen\<close> = 36 bytes,
  zero-initialised and overwritten from the start by the bytes the device transferred,
  so the decode never reads past the end of the buffer and never panics. A reply
  shorter than 36 bytes (20 bytes, say) is decoded with the missing bytes read as
  zero, and the decoded response is returned with a nil error. The only errors
  returned are those of \<open>sendCDB\<close>: the errno of the system call, or an \<open>sgIOErr\<close> when
  the driver's info word is not OK; in both cases the response is the zero value.
\<close>

theorem SCSIInquiry_fixed_buffer:
  "map_of (fdtable k) (fd d) = Some dev \<longrightarrow>
     (let r = dev inquiry_cdb;
          buf = transfer (reply_data r) INQRespLen (replicate INQRespLen 0)
      in length buf = INQRespLen \<and>
         (length (reply_data r) \<le> INQRespLen \<longrightarrow>
            buf = reply_data r @ replicate (INQRespLen - length (reply_data r)) 0) \<and>
         SCSIDevice_SCSIInquiry k d =
           (case reply_errno r of
              Some e \<Rightarrow> Some (InquiryResponse_zero, Some (Errno e))
            | None \<Rightarrow>
                if reply_info r AND SGInfoOkMask \<noteq> SGInfoOk
                then Some (InquiryResponse_zero,
                       Some (sgIOErr (reply_status r) (reply_hostStatus r)
                               (reply_driverStatus r)))
                else Some (inquiry_fields buf, None)))"
proof
  assume a: "map_of (fdtable k) (fd d) = Some dev"
  have l: "length (transfer (reply_data (dev inquiry_cdb)) INQRespLen (replicate INQRespLen 0))
      = INQRespLen"
    by (simp add: length_transfer)
  have p: "length (reply_data (dev inquiry_cdb)) \<le> INQRespLen \<longrightarrow>
      transfer (reply_data (dev inquiry_cdb)) INQRespLen (replicate INQRespLen 0) =
      reply_data (dev inquiry_cdb) @
        replicate (INQRespLen - length (reply_data (dev inquiry_cdb))) 0"
    by (simp add: transfer_def Let_def)
  show "let r = dev inquiry_cdb;
          buf = transfer (reply_data r) INQRespLen (replicate INQRespLen 0)
      in length buf = INQRespLen \<and>
         (length (reply_data r) \<le> INQRespLen \<longrightarrow>
            buf = reply_data r @ replicate (INQRespLen - length (reply_data r)) 0) \<and>
         SCSIDevice_SCSIInquiry k d =
           (case reply_errno r of
              Some e \<Rightarrow> Some (InquiryResponse_zero, Some (Errno e))
            | None \<Rightarrow>
                if reply_info r AND SGInfoOkMask \<noteq> SGInfoOk
                then Some (InquiryResponse_zero,
                       Some (sgIOErr (reply_status r) (reply_hostStatus r)
                               (reply_driverStatus r)))
                else Some (inquiry_fields buf, None))"
    unfolding Let_def by (intro conjI l p SCSIInquiry_reply [OF a])
qed

text \<open>The theorem at a device that answers INQUIRY with a full 36-byte response.\<close>

theorem SCSIInquiry_fixed_buffer_witness:
  "map_of (fdtable (kernel_with ata_disk)) (fd sda) = Some ata_disk \<and>
   SCSIDevice_SCSIInquiry (kernel_with ata_disk) sda =
     Some (\<lparr>Peripheral = 0x00, Version = 0x05,
             VendorID = map of_char ''ATA     '',
             ProductID = map of_char ''Samsung SSD 850 '',
             ProductRev = map of_char ''2B6Q''\<rparr>, None)"
  using SCSIInquiry_fixed_buffer [of "kernel_with ata_disk" sda ata_disk]
  by (simp add: kernel_with_def sda_def ata_disk_def data_reply_def inquiry_fields_def
      transfer_def INQRespLen_def SGInfoOkMask_def SGInfoOk_def)

text \<open>
  Claim C6 as written says that a 20-byte INQUIRY response fails with a
  malformed-response error. A device that transfers only 20 bytes gets a decoded
  response and a nil error from \<open>SCSIInquiry\<close>.
\<close>

theorem SCSIInquiry_short_reply_counterexample:
  "length (reply_data (short_inquiry_disk inquiry_cdb)) = 20 \<and>
   SCSIDevice_SCSIInquiry (kernel_with short_inquiry_disk) sda =
     Some (\<lparr>Peripheral = 0x00, Version = 0x05,
             VendorID = map of_char ''ATA     '',
             ProductID = map of_char ''Sams'' @ replicate 12 0,
             ProductRev = replicate 4 0\<rparr>, None)"
  by (simp add: SCSIDevice_SCSIInquiry_def sendCDB_def execSCSIGeneric_def Ioctl_def
      kernel_with_def sda_def short_inquiry_disk_def inquiry_cdb_def data_reply_def
      BigEndian_PutUint16_def SCSIInquiry_def INQRespLen_def SGIO_def SGInfoOkMask_def
      SGInfoOk_def SGDxferFromDev_def DefaultTimeout_def transfer_def
      binary_Read_InquiryResponse_def InquiryResponse_zero_def replicate_5)

section \<open>The device type resolver\<close>

lemma SCSIDevice_Open_ok:
  assumes "nodes k name = Inr dev"
  shows "SCSIDevice_Open k \<lparr>Name = name, fd = 0\<rparr> =
     ((None, \<lparr>Name = name, fd = lowest_free_fd (map fst (fdtable k))\<rparr>),
      k\<lparr>fdtable := (lowest_free_fd (map fst (fdtable k)), dev) # fdtable k\<rparr>)"
  using assms by (simp add: SCSIDevice_Open_def unix_Open_def Let_def)

lemma lowest_free_fd_stdio: "lowest_free_fd [0, 1, 2] = 3"
  by (simp add: lowest_free_fd_def upt_rec numeral_eq_Suc)

text \<open>
  Claim C2. When the device can be opened and answers INQUIRY with a 36-byte response
  the executor accepts, \<open>DetectSCSIType\<close> returns the SATA implementation if the
  eight bytes at offsets 8 to 15 (the vendor id) equal the ASCII bytes of "ATA"
  followed by five spaces, and the plain SCSI implementation for every other vendor
  id; in both cases the error is nil and the descriptor it opened is in the table.
\<close>

theorem DetectSCSIType_classifies:
  "nodes k name = Inr dev \<and> reply_good (dev inquiry_cdb) \<and>
   length (reply_data (dev inquiry_cdb)) = 36 \<longrightarrow>
     (let n = lowest_free_fd (map fst (fdtable k));
          d = \<lparr>Name = name, fd = n\<rparr>;
          k' = k\<lparr>fdtable := (n, dev) # fdtable k\<rparr>
      in DetectSCSIType k name =
           Some ((Some (if take 8 (drop 8 (reply_data (dev inquiry_cdb))) =
                           map of_char ''ATA     ''
                        then Dev_SATA d else Dev_SCSIDevice d), None), k'))"
proof
  assume h: "nodes k name = Inr dev \<and> reply_good (dev inquiry_cdb) \<and>
    length (reply_data (dev inquiry_cdb)) = 36"
  define n where "n = lowest_free_fd (map fst (fdtable k))"
  define d where "d = \<lparr>Name = name, fd = n\<rparr>"
  define k' where "k' = k\<lparr>fdtable := (n, dev) # fdtable k\<rparr>"
  have o: "SCSIDevice_Open k \<lparr>Name = name, fd = 0\<rparr> = ((None, d), k')"
    using h by (simp add: SCSIDevice_Open_ok n_def d_def k'_def)
  have m: "map_of (fdtable k') (fd d) = Some dev" by (simp add: k'_def d_def)
  have t: "transfer (reply_data (dev inquiry_cdb)) INQRespLen (replicate INQRespLen 0) =
      reply_data (dev inquiry_cdb)"
    using h transfer_full [of "reply_data (dev inquiry_cdb)" "replicate INQRespLen 0"]
    by (simp add: INQRespLen_def)
  have i: "SCSIDevice_SCSIInquiry k' d =
      Some (inquiry_fields (reply_data (dev inquiry_cdb)), None)"
    using h by (simp add: SCSIInquiry_reply [OF m] reply_good_def t)
  have "DetectSCSIType k name =
      Some ((Some (if take 8 (drop 8 (reply_data (dev inquiry_cdb))) = map of_char ''ATA     ''
                   then Dev_SATA d else Dev_SCSIDevice d), None), k')"
    unfolding DetectSCSIType_def Let_def o
    by (simp add: i inquiry_fields_def)
  then show "let n = lowest_free_fd (map fst (fdtable k));
          d = \<lparr>Name = name, fd = n\<rparr>;
          k' = k\<lparr>fdtable := (n, dev) # fdtable k\<rparr>
      in DetectSCSIType k name =
           Some ((Some (if take 8 (drop 8 (reply_data (dev inquiry_cdb))) =
                           map of_char ''ATA     ''
                        then Dev_SATA d else Dev_SCSIDevice d), None), k')"
    by (simp add: n_def d_def k'_def Let_def)
qed

text \<open>
  The theorem at a SATA disk, and at a device whose vendor id differs from the
  literal in its last byte only.
\<close>

theorem DetectSCSIType_classifies_witness:
  "DetectSCSIType (kernel_closed ata_disk) ''/dev/sda'' =
     Some ((Some (Dev_SATA sda), None),
           (kernel_closed ata_disk)
             \<lparr>fdtable := (3, ata_disk) # fdtable (kernel_closed ata_disk)\<rparr>) \<and>
   DetectSCSIType (kernel_closed near_ata_disk) ''/dev/sda'' =
     Some ((Some (Dev_SCSIDevice sda), None),
           (kernel_closed near_ata_disk)
             \<lparr>fdtable := (3, near_ata_disk) # fdtable (kernel_closed near_ata_disk)\<rparr>)"
proof -
  have f: "lowest_free_fd (map fst (fdtable (kernel_closed dev))) = 3" for dev
    by (simp add: kernel_closed_def lowest_free_fd_stdio)
  have n: "nodes (kernel_closed dev) ''/dev/sda'' = Inr dev" for dev
    by (simp add: kernel_closed_def)
  have a: "reply_good (ata_disk inquiry_cdb)" "length (reply_data (ata_disk inquiry_cdb)) = 36"
    "take 8 (drop 8 (reply_data (ata_disk inquiry_cdb))) = map of_char ''ATA     ''"
    by (simp_all add: ata_disk_def reply_good_def data_reply_def SGInfoOkMask_def SGInfoOk_def)
  have s: "reply_good (near_ata_disk inquiry_cdb)"
    "length (reply_data (near_ata_disk inquiry_cdb)) = 36"
    "take 8 (drop 8 (reply_data (near_ata_disk inquiry_cdb))) \<noteq> map of_char ''ATA     ''"
    by (simp_all add: near_ata_disk_def reply_good_def data_reply_def SGInfoOkMask_def
        SGInfoOk_def)
  show ?thesis
    using a s
      DetectSCSIType_classifies [of "kernel_closed ata_disk" "''/dev/sda''" ata_disk]
      DetectSCSIType_classifies [of "kernel_closed near_ata_disk" "''/dev/sda''" near_ata_disk]
    by (simp add: f n Let_def sda_def)
qed

text \<open>
  \<open>DetectSCSIType\<close> never closes a descriptor: whatever it returns, the descriptor
  table afterwards is the table before with at most one entry added in front.
\<close>

lemma DetectSCSIType_never_closes:
  assumes "DetectSCSIType k name = Some (r, k')"
  shows "fdtable k' = fdtable k \<or> (\<exists>e. fdtable k' = e # fdtable k)"
  using assms
  by (auto simp: DetectSCSIType_def SCSIDevice_Open_def unix_Open_def Let_def
      split: sum.splits option.splits prod.splits if_splits)

text \<open>
  Claim C7 at a device that can be opened and fails the INQUIRY command with \<open>EIO\<close>:
  \<open>DetectSCSIType\<close> returns \<open>(nil, EIO)\<close>, and descriptor 3, which it opened, is still
  in the descriptor table.
\<close>

theorem DetectSCSIType_leaves_fd_open:
  "DetectSCSIType (kernel_closed dead_disk) ''/dev/sda'' =
     Some ((None, Some (Errno 5)),
           (kernel_closed dead_disk)
             \<lparr>fdtable := (3, dead_disk) # fdtable (kernel_closed dead_disk)\<rparr>) \<and>
   map fst (fdtable ((kernel_closed dead_disk)
      \<lparr>fdtable := (3, dead_disk) # fdtable (kernel_closed dead_disk)\<rparr>)) = [3, 0, 1, 2]"
proof -
  let ?k = "kernel_closed dead_disk"
  let ?k' = "?k\<lparr>fdtable := (3, dead_disk) # fdtable ?k\<rparr>"
  have o: "SCSIDevice_Open ?k \<lparr>Name = ''/dev/sda'', fd = 0\<rparr> = ((None, sda), ?k')"
    using SCSIDevice_Open_ok [of ?k "''/dev/sda''" dead_disk]
    by (simp add: kernel_closed_def lowest_free_fd_stdio sda_def)
  have m: "map_of (fdtable ?k') (fd sda) = Some dead_disk" by (simp add: sda_def)
  have i: "SCSIDevice_SCSIInquiry ?k' sda = Some (InquiryResponse_zero, Some (Errno 5))"
    by (simp add: SCSIInquiry_reply [OF m] dead_disk_def errno_reply_def)
  have "DetectSCSIType ?k ''/dev/sda'' = Some ((None, Some (Errno 5)), ?k')"
    unfolding DetectSCSIType_def Let_def o by (simp add: i)
  then show ?thesis by (simp add: kernel_closed_def)
qed

section \<open>Disk attributes\<close>

text \<open>\<open>GetDiskInfo\<close> of the plain SCSI device never returns an error.\<close>

lemma SCSIDevice_GetDiskInfo_nil_error:
  "SCSIDevice_GetDiskInfo k d = Some (attr, err) \<Longrightarrow> err = None"
  by (auto simp: SCSIDevice_GetDiskInfo_def split: option.splits prod.splits)

text \<open>
  \<open>GetDiskInfo\<close> of the SATA device checks the same call: when INQUIRY succeeds and
  \<open>readCapacity\<close> returns an error, it returns that error, wrapped.
\<close>

lemma SATA_GetDiskInfo_readCapacity_error:
  assumes "SCSIDevice_SCSIInquiry k d = Some (inqResp, None)"
    and "readCapacity k d = Some (capacity, Some err)"
  shows "SATA_GetDiskInfo order cmd k d =
    Some (DiskAttr_zero, Some (Errorf ''SgExecute readCapacity'' err))"
  using assms by (simp add: SATA_GetDiskInfo_def)

text \<open>The IDENTIFY data \<open>AtaIdentify\<close> returns always has the field lengths of the struct.\<close>

lemma IdentDevData_zero_sized: "IdentDevData_sized IdentDevData_zero"
  by (simp add: IdentDevData_sized_def IdentDevData_zero_def)

lemma binary_Read_IdentDevData_sized:
  "IdentDevData_sized d \<Longrightarrow> IdentDevData_sized (snd (binary_Read_IdentDevData order buf d))"
  by (simp add: binary_Read_IdentDevData_def IdentDevData_sized_def)

lemma AtaIdentify_sized:
  "AtaIdentify order cmd k d = Some (identifyBuf, err) \<Longrightarrow> IdentDevData_sized identifyBuf"
  by (auto simp: AtaIdentify_def Let_def IdentDevData_zero_sized binary_Read_IdentDevData_sized
      split: option.splits prod.splits)

text \<open>
  Claim C8 at a device that answers INQUIRY and fails READ CAPACITY(10) with \<open>EIO\<close>:
  \<open>readCapacity\<close> returns capacity 0 and the error; \<open>GetDiskInfo\<close> of the plain
  SCSI device returns the zero \<open>DiskAttr\<close> (capacity 0) with a nil error; on the same
  device \<open>GetDiskInfo\<close> of the SATA device returns the error.
\<close>

theorem GetDiskInfo_drops_readCapacity_error:
  "readCapacity (kernel_with no_capacity_disk) sda = Some (0, Some (Errno 5)) \<and>
   SCSIDevice_GetDiskInfo (kernel_with no_capacity_disk) sda = Some (DiskAttr_zero, None) \<and>
   SATA_GetDiskInfo order cmd (kernel_with no_capacity_disk) sda =
     Some (DiskAttr_zero, Some (Errorf ''SgExecute readCapacity'' (Errno 5)))"
proof -
  let ?k = "kernel_with no_capacity_disk"
  have m: "map_of (fdtable ?k) (fd sda) = Some no_capacity_disk"
    by (simp add: kernel_with_def sda_def)
  have "sendCDB ?k sda read_capacity_cdb (replicate 8 0) = Some (Some (Errno 5), replicate 8 0)"
    using m
    by (rule sendCDB_errno)
      (simp_all add: read_capacity_cdb_def inquiry_cdb_def no_capacity_disk_def errno_reply_def)
  moreover have "SCSIReadCapacity10 # replicate 9 0 = read_capacity_cdb"
    by (simp add: SCSIReadCapacity10_def read_capacity_cdb_def numeral_eq_Suc)
  ultimately have r: "readCapacity ?k sda = Some (0, Some (Errno 5))"
    by (simp add: readCapacity_def)
  have g: "SCSIDevice_GetDiskInfo ?k sda = Some (DiskAttr_zero, None)"
    by (simp add: SCSIDevice_GetDiskInfo_def r DiskAttr_zero_def)
  have "\<exists>inqResp. SCSIDevice_SCSIInquiry ?k sda = Some (inqResp, None)"
    by (simp add: SCSIInquiry_reply [OF m] no_capacity_disk_def data_reply_def
        SGInfoOkMask_def SGInfoOk_def)
  then obtain inqResp where "SCSIDevice_SCSIInquiry ?k sda = Some (inqResp, None)" ..
  then have "SATA_GetDiskInfo order cmd ?k sda =
      Some (DiskAttr_zero, Some (Errorf ''SgExecute readCapacity'' (Errno 5)))"
    using r by (rule SATA_GetDiskInfo_readCapacity_error)
  with r g show ?thesis by simp
qed

section \<open>Further properties of the decoder\<close>

lemma Sprintf_0x_examples:
  "hex 5 = ''5''" "Sprintf_0x 6 0xc50 = ''000c50''" "Sprintf_0x 9 0x123456 = ''000123456''"
  by (simp_all add: Sprintf_0x_def hex.simps hexdigit_def numeral_3_eq_3)

text \<open>
  The WWN decode at the words 0x5000, 0xC500, 0x0012, 0x3456: NAA is 5, the OUI is
  0x000C50 and the unique id is 0x000123456.
\<close>

theorem GetWWN_known_vector:
  "GetWWN (d\<lparr>WWN := [0x5000, 0xC500, 0x0012, 0x3456]\<rparr>) = ''5 000c50 000123456''"
  by (simp add: GetWWN_def Sprintf_0x_examples)

text \<open>
  The minor-version decode: the word 0 is not reported, 0x0082 is the published ACS-2
  revision, and 0xBEEF, which is not in the table, is "unknown".
\<close>

theorem GetATAMinorVersion_examples:
  "GetATAMinorVersion (d\<lparr>MinorVer := 0x0000\<rparr>) =
     ''This device does not report ATA minor version'' \<and>
   GetATAMinorVersion (d\<lparr>MinorVer := 0x0082\<rparr>) = ''ACS-2 published, ANSI INCITS 482-2012'' \<and>
   GetATAMinorVersion (d\<lparr>MinorVer := 0xbeef\<rparr>) = ''unknown''"
  by (simp add: GetATAMinorVersion_def ataMinorVersions_def)

lemma unat_shift_512:
  "unat (push_bit n (512 :: uint16)) = (512 * 2 ^ n) mod 65536"
proof -
  have "unat (push_bit n (512 :: uint16)) = take_bit 16 (push_bit n (unat (512 :: uint16)))"
    by (simp only: unsigned_push_bit_eq) simp
  also have "\<dots> = (512 * 2 ^ n) mod 65536"
    by (simp add: take_bit_eq_mod push_bit_eq_mult)
  finally show ?thesis .
qed

text \<open>
  The sector sizes for every sector-size word. The logical size is always 512. When
  bits 15:14 are 01 and bit 13 is set, the physical size is 512 shifted left by the
  low nibble \<open>n\<close> in 16 bits, that is \<open>512 * 2 ^ n\<close> modulo 65536: exactly
  \<open>512 * 2 ^ n\<close> for \<open>n \<le> 6\<close>, and 0 for \<open>n \<ge> 7\<close>. In every other case the physical
  size is 512.
\<close>

theorem GetSectorSize_value:
  "fst (GetSectorSize d) = 512 \<and>
   (SectorSize d AND 0xc000 = 0x4000 \<and> SectorSize d AND 0x2000 \<noteq> 0 \<longrightarrow>
      unat (snd (GetSectorSize d)) = (512 * 2 ^ unat (SectorSize d AND 0x0f)) mod 65536 \<and>
      (unat (SectorSize d AND 0x0f) \<le> 6 \<longrightarrow>
         unat (snd (GetSectorSize d)) = 512 * 2 ^ unat (SectorSize d AND 0x0f)) \<and>
      (7 \<le> unat (SectorSize d AND 0x0f) \<longrightarrow> snd (GetSectorSize d) = 0)) \<and>
   (\<not> (SectorSize d AND 0xc000 = 0x4000 \<and> SectorSize d AND 0x2000 \<noteq> 0) \<longrightarrow>
      snd (GetSectorSize d) = 512)"
proof -
  let ?n = "unat (SectorSize d AND 0x0f)"
  have small: "(512 * 2 ^ ?n) mod 65536 = 512 * (2::nat) ^ ?n" if "?n \<le> 6"
  proof -
    have "(2::nat) ^ ?n \<le> 2 ^ 6" using that by (intro power_increasing) simp_all
    then have "512 * (2::nat) ^ ?n < 65536" by simp
    then show ?thesis by simp
  qed
  have big: "push_bit ?n (512 :: uint16) = 0" if "7 \<le> ?n"
  proof -
    define m where "m = ?n - 7"
    have m: "?n = 7 + m" using that by (simp add: m_def)
    have "(512 * 2 ^ ?n) mod 65536 = (65536 * 2 ^ m) mod (65536::nat)"
      by (simp add: m power_add)
    then have "unat (push_bit ?n (512 :: uint16)) = 0"
      by (simp add: unat_shift_512)
    then show ?thesis by (simp only: unat_eq_0)
  qed
  have f: "fst (GetSectorSize d) = 512" by (simp add: GetSectorSize_def Let_def)
  have y: "snd (GetSectorSize d) = push_bit ?n 512"
    if "SectorSize d AND 0xc000 = 0x4000 \<and> SectorSize d AND 0x2000 \<noteq> 0"
    using that by (simp add: GetSectorSize_def Let_def)
  have z: "snd (GetSectorSize d) = 512"
    if "\<not> (SectorSize d AND 0xc000 = 0x4000 \<and> SectorSize d AND 0x2000 \<noteq> 0)"
    using that by (auto simp add: GetSectorSize_def Let_def)
  show ?thesis
  proof (intro conjI impI)
    show "fst (GetSectorSize d) = 512" by (rule f)
  next
    assume a: "SectorSize d AND 0xc000 = 0x4000 \<and> SectorSize d AND 0x2000 \<noteq> 0"
    show "unat (snd (GetSectorSize d)) = (512 * 2 ^ ?n) mod 65536"
      by (simp only: y [OF a] unat_shift_512)
  next
    assume a: "SectorSize d AND 0xc000 = 0x4000 \<and> SectorSize d AND 0x2000 \<noteq> 0"
      and b: "?n \<le> 6"
    show "unat (snd (GetSectorSize d)) = 512 * 2 ^ ?n"
      by (simp only: y [OF a] unat_shift_512 small [OF b])
  next
    assume a: "SectorSize d AND 0xc000 = 0x4000 \<and> SectorSize d AND 0x2000 \<noteq> 0"
      and b: "7 \<le> ?n"
    show "snd (GetSectorSize d) = 0"
      by (simp only: y [OF a] big [OF b])
  next
    assume "\<not> (SectorSize d AND 0xc000 = 0x4000 \<and> SectorSize d AND 0x2000 \<noteq> 0)"
    then show "snd (GetSectorSize d) = 512" by (rule z)
  qed
qed

theorem GetSectorSize_value_witness:
  "snd (GetSectorSize (IdentDevData_zero\<lparr>SectorSize := 0x0000\<rparr>)) = 512 \<and>
   unat (snd (GetSectorSize (IdentDevData_zero\<lparr>SectorSize := 0x6001\<rparr>))) = 1024 \<and>
   unat (snd (GetSectorSize (IdentDevData_zero\<lparr>SectorSize := 0x6003\<rparr>))) = 4096 \<and>
   snd (GetSectorSize (IdentDevData_zero\<lparr>SectorSize := 0x600f\<rparr>)) = 0"
  using GetSectorSize_value [of "IdentDevData_zero\<lparr>SectorSize := 0x0000\<rparr>"]
    GetSectorSize_value [of "IdentDevData_zero\<lparr>SectorSize := 0x6001\<rparr>"]
    GetSectorSize_value [of "IdentDevData_zero\<lparr>SectorSize := 0x6003\<rparr>"]
    GetSectorSize_value [of "IdentDevData_zero\<lparr>SectorSize := 0x600f\<rparr>"]
  by simp

end
